theory Spec2Isabelle
  imports Complex_Main
begin

section \<open>Chart data management (src/utils/chartUtils.ts)\<close>

text \<open>
  JavaScript numbers are modelled as \<^typ>\<open>real\<close> (the arithmetic of the source is read as
  exact arithmetic), millisecond timestamps taken from \<^verbatim>\<open>Date.now()\<close> as \<^typ>\<open>int\<close>.
  The record fields carry a prefix, since the fields \<^verbatim>\<open>value\<close>, \<^verbatim>\<open>timestamp\<close>,
  \<^verbatim>\<open>min\<close>, \<^verbatim>\<open>max\<close> and \<^verbatim>\<open>data\<close> occur in several types of the source.
\<close>

record ChartDataPoint =
  cdp_value :: real
  cdp_timestamp :: int

record AssetChartData =
  a_timestamps :: "int list"
  a_prices :: "real list"
  a_min :: real
  a_max :: real
  a_data :: "ChartDataPoint list"

record PortfolioEvent =
  pe_timestamp :: int
  pe_value :: real
  pe_type :: string
  pe_description :: string

record PortfolioAnnotation =
  pa_timestamp :: int
  pa_value :: real
  pa_text :: string

record PortfolioHistoryData =
  p_timestamps :: "int list"
  p_values :: "real list"
  p_events :: "PortfolioEvent list"
  p_annotations :: "PortfolioAnnotation list"
  p_min :: real
  p_max :: real
  p_startValue :: real
  p_data :: "ChartDataPoint list"

text \<open>
  \<^verbatim>\<open>Math.min(...xs)\<close> and \<^verbatim>\<open>Math.max(...xs)\<close> on a spread array. The source calls
  them under the guard \<^verbatim>\<open>history.prices.length > 0\<close> only, and the model keeps that
  guard at the call (on no argument JavaScript gives an infinity, which is not a real).
\<close>

definition Math_min_spread :: "real list \<Rightarrow> real" where
  "Math_min_spread xs = fold min (tl xs) (hd xs)"

definition Math_max_spread :: "real list \<Rightarrow> real" where
  "Math_max_spread xs = fold max (tl xs) (hd xs)"

text \<open>
  The module-level object \<^verbatim>\<open>assetPriceHistory\<close> is a map from asset ids to chart data,
  passed in and returned. \<^verbatim>\<open>initAssetPriceHistory\<close> stamps the first point with its own
  reading of the clock, the argument \<open>now\<close>.
\<close>

type_synonym AssetPriceHistory = "string \<rightharpoonup> AssetChartData"

definition initAssetPriceHistory ::
  "AssetPriceHistory \<Rightarrow> string \<Rightarrow> real \<Rightarrow> int \<Rightarrow> AssetPriceHistory" where
  "initAssetPriceHistory assetPriceHistory assetId initialPrice now =
     assetPriceHistory(assetId \<mapsto>
       \<lparr>a_timestamps = [now],
        a_prices = [initialPrice],
        a_min = initialPrice,
        a_max = initialPrice,
        a_data = [\<lparr>cdp_value = initialPrice, cdp_timestamp = now\<rparr>]\<rparr>)"

text \<open>The body of \<^verbatim>\<open>updateAssetPriceHistory\<close> on an entry that exists.\<close>

definition pushAssetPrice :: "AssetChartData \<Rightarrow> real \<Rightarrow> int \<Rightarrow> AssetChartData" where
  "pushAssetPrice history price timestamp =
     (let h1 = history
            \<lparr>a_timestamps := a_timestamps history @ [timestamp],
             a_prices := a_prices history @ [price],
             a_data := a_data history @ [\<lparr>cdp_value = price, cdp_timestamp = timestamp\<rparr>]\<rparr>;
          h2 = h1\<lparr>a_min := min (a_min h1) price, a_max := max (a_max h1) price\<rparr>
      in if length (a_prices h2) > 50 then
           (let h3 = h2
                  \<lparr>a_timestamps := tl (a_timestamps h2),
                   a_prices := tl (a_prices h2),
                   a_data := tl (a_data h2)\<rparr>
            in if length (a_prices h3) > 0 then
                 h3\<lparr>a_min := Math_min_spread (a_prices h3),
                    a_max := Math_max_spread (a_prices h3)\<rparr>
               else h3)
         else h2)"

definition updateAssetPriceHistory ::
  "AssetPriceHistory \<Rightarrow> string \<Rightarrow> real \<Rightarrow> int \<Rightarrow> int \<Rightarrow> AssetPriceHistory" where
  "updateAssetPriceHistory assetPriceHistory assetId price timestamp now =
     (case assetPriceHistory assetId of
        None \<Rightarrow> initAssetPriceHistory assetPriceHistory assetId price now
      | Some history \<Rightarrow> assetPriceHistory(assetId \<mapsto> pushAssetPrice history price timestamp))"

text \<open>The initial value of the module-level object \<^verbatim>\<open>portfolioHistory\<close>.\<close>

definition portfolioHistory :: PortfolioHistoryData where
  "portfolioHistory =
     \<lparr>p_timestamps = [], p_values = [], p_events = [], p_annotations = [],
      p_min = 0, p_max = 0, p_startValue = 0, p_data = []\<rparr>"

text \<open>
  \<^verbatim>\<open>updatePortfolioHistory(value, timestamp, event)\<close>; the optional event argument
  \<^verbatim>\<open>{type, description} | null\<close> is an optional pair.
\<close>

definition updatePortfolioHistory ::
  "PortfolioHistoryData \<Rightarrow> real \<Rightarrow> int \<Rightarrow> (string \<times> string) option \<Rightarrow> PortfolioHistoryData" where
  "updatePortfolioHistory ph v timestamp event =
     (let h0 = (if length (p_values ph) = 0
                then ph\<lparr>p_startValue := v, p_min := v * 0.9, p_max := v * 1.1\<rparr>
                else ph);
          h1 = h0
            \<lparr>p_timestamps := p_timestamps h0 @ [timestamp],
             p_values := p_values h0 @ [v],
             p_data := p_data h0 @ [\<lparr>cdp_value = v, cdp_timestamp = timestamp\<rparr>]\<rparr>;
          h2 = h1\<lparr>p_min := min (p_min h1) (v * 0.9), p_max := max (p_max h1) (v * 1.1)\<rparr>;
          h3 = (case event of
                  None \<Rightarrow> h2
                | Some (ty, description) \<Rightarrow>
                    h2\<lparr>p_events := p_events h2 @
                      [\<lparr>pe_timestamp = timestamp, pe_value = v,
                        pe_type = ty, pe_description = description\<rparr>]\<rparr>)
      in if length (p_values h3) > 200 then
           h3\<lparr>p_timestamps := tl (p_timestamps h3),
              p_values := tl (p_values h3),
              p_data := tl (p_data h3)\<rparr>
         else h3)"

text \<open>
  A sequence of appends: the calls \<open>(assetId, price, timestamp, now)\<close> of
  \<^verbatim>\<open>updateAssetPriceHistory\<close>, and the calls \<open>(value, timestamp, event)\<close> of
  \<^verbatim>\<open>updatePortfolioHistory\<close>, run in order from a given store.
\<close>

definition appendAssetPrices ::
  "AssetPriceHistory \<Rightarrow> (string \<times> real \<times> int \<times> int) list \<Rightarrow> AssetPriceHistory" where
  "appendAssetPrices store calls =
     foldl (\<lambda>s (assetId, price, timestamp, now).
              updateAssetPriceHistory s assetId price timestamp now) store calls"

definition appendPortfolioValues ::
  "PortfolioHistoryData \<Rightarrow> (real \<times> int \<times> (string \<times> string) option) list \<Rightarrow> PortfolioHistoryData" where
  "appendPortfolioValues ph calls =
     foldl (\<lambda>h (v, timestamp, event). updatePortfolioHistory h v timestamp event) ph calls"

subsection \<open>Invariants of the stored series\<close>

text \<open>
  What every series reached by appends satisfies: the parallel arrays have one length, the
  length is within the cap, and (per asset) the tracked bounds are those of the stored prices.
\<close>

definition asset_inv :: "AssetChartData \<Rightarrow> bool" where
  "asset_inv h \<longleftrightarrow>
     a_prices h \<noteq> [] \<and> length (a_prices h) \<le> 50 \<and>
     length (a_timestamps h) = length (a_prices h) \<and>
     length (a_data h) = length (a_prices h) \<and>
     a_min h = Min (set (a_prices h)) \<and> a_max h = Max (set (a_prices h))"

definition store_inv :: "AssetPriceHistory \<Rightarrow> bool" where
  "store_inv s \<longleftrightarrow> (\<forall>h \<in> ran s. asset_inv h)"

definition port_inv :: "PortfolioHistoryData \<Rightarrow> bool" where
  "port_inv ph \<longleftrightarrow>
     length (p_values ph) \<le> 200 \<and>
     length (p_timestamps ph) = length (p_values ph) \<and>
     length (p_data ph) = length (p_values ph)"

text \<open>
  Series for the examples: the per-asset series after the two appends of 5 and 6 for one
  asset, a per-asset series at its cap of 50 points, and a portfolio series at its cap of
  200 points.
\<close>

definition short_asset_history :: AssetChartData where
  "short_asset_history =
     \<lparr>a_timestamps = [2, 3], a_prices = [5, 6], a_min = 5, a_max = 6,
      a_data = [\<lparr>cdp_value = 5, cdp_timestamp = 2\<rparr>, \<lparr>cdp_value = 6, cdp_timestamp = 3\<rparr>]\<rparr>"

definition full_asset_history :: AssetChartData where
  "full_asset_history =
     \<lparr>a_timestamps = replicate 50 0, a_prices = replicate 50 1, a_min = 1, a_max = 1,
      a_data = replicate 50 \<lparr>cdp_value = 1, cdp_timestamp = 0\<rparr>\<rparr>"

definition full_portfolio_history :: PortfolioHistoryData where
  "full_portfolio_history =
     \<lparr>p_timestamps = replicate 200 0, p_values = replicate 200 100, p_events = [],
      p_annotations = [], p_min = 90, p_max = 110, p_startValue = 100,
      p_data = replicate 200 \<lparr>cdp_value = 100, cdp_timestamp = 0\<rparr>\<rparr>"

section \<open>Trend series (chartUtils.ts and components/AssetList.tsx)\<close>

text \<open>
  The type \<^verbatim>\<open>Asset\<close> is declared in \<^verbatim>\<open>types/game\<close>, which is not among the sources; the
  record has the fields the sources read.
\<close>

record Asset =
  asset_id :: string
  asset_name :: string
  price :: real
  previousPrice :: real
  volatility :: real
  color :: string

text \<open>
  \<^verbatim>\<open>Math.random()\<close> is a parameter \<open>rnd\<close>: \<open>rnd k\<close> is what the call number \<open>k\<close>
  (from 0) of one run of the function returns. Iteration \<open>i\<close> of either loop makes the call
  number \<open>i - 1\<close>, the loops starting at \<open>i = 1\<close> with one call each.

  The point pushed by iteration \<open>i\<close> of the loop of \<^verbatim>\<open>generateEnhancedSparklineData\<close>;
  \<open>t0\<close> is \<^verbatim>\<open>history[0].timestamp\<close>.
\<close>

definition sparklinePoint ::
  "real \<Rightarrow> real \<Rightarrow> real \<Rightarrow> int \<Rightarrow> (nat \<Rightarrow> real) \<Rightarrow> int \<Rightarrow> int \<Rightarrow> ChartDataPoint" where
  "sparklinePoint basePrice prevPrice vol len rnd t0 i =
     (let position = real_of_int i / real_of_int (len - 1);
          trendFactor = (if position > 0.5 then (position - 0.5) * 2 else 0);
          baseValue = prevPrice * (1 - position) + basePrice * position;
          deviation = (rnd (nat (i - 1)) - 0.5) * vol * basePrice * 0.6;
          v = baseValue + deviation * (1 - trendFactor)
      in \<lparr>cdp_value = v, cdp_timestamp = t0 + i * 500\<rparr>)"

text \<open>
  The loop \<^verbatim>\<open>for (let i = 1; i < length - 1; i++)\<close>, from its state at \<open>i\<close>. The
  array \<^verbatim>\<open>history\<close> holds the first point before the loop starts, so \<^verbatim>\<open>history[0]\<close> is
  read from a non-empty array at every iteration.
\<close>

function sparkline_loop ::
  "real \<Rightarrow> real \<Rightarrow> real \<Rightarrow> int \<Rightarrow> (nat \<Rightarrow> real) \<Rightarrow> int \<Rightarrow> ChartDataPoint list \<Rightarrow> ChartDataPoint list"
  where
  "sparkline_loop basePrice prevPrice vol len rnd i history =
     (if i < len - 1 then
        sparkline_loop basePrice prevPrice vol len rnd (i + 1)
          (history @ [sparklinePoint basePrice prevPrice vol len rnd (cdp_timestamp (hd history)) i])
      else history)"
  by pat_completeness auto
termination
  by (relation "measure (\<lambda>(basePrice, prevPrice, vol, len, rnd, i, history). nat (len - 1 - i))")
    auto

text \<open>
  \<^verbatim>\<open>generateEnhancedSparklineData(asset, length)\<close>; the source's default for
  \<^verbatim>\<open>length\<close> is 20. \<open>now0\<close> and \<open>now1\<close> are the two readings of \<^verbatim>\<open>Date.now()\<close>, for
  the first and for the last point.
\<close>

definition generateEnhancedSparklineData ::
  "Asset \<Rightarrow> int \<Rightarrow> (nat \<Rightarrow> real) \<Rightarrow> int \<Rightarrow> int \<Rightarrow> ChartDataPoint list" where
  "generateEnhancedSparklineData asset len rnd now0 now1 =
     (let basePrice = price asset;
          prevPrice = previousPrice asset;
          vol = volatility asset;
          history0 = [\<lparr>cdp_value = prevPrice, cdp_timestamp = now0 - len * 500\<rparr>];
          history1 = sparkline_loop basePrice prevPrice vol len rnd 1 history0
      in history1 @ [\<lparr>cdp_value = basePrice, cdp_timestamp = now1\<rparr>])"

text \<open>
  \<^verbatim>\<open>generatePriceHistory(asset)\<close> of the component \<^verbatim>\<open>AssetList\<close>: the same loop over
  objects \<^verbatim>\<open>{value}\<close>, with \<^verbatim>\<open>points = 20\<close> fixed and the scale constant 0.3.
\<close>

record HistoryPoint =
  hp_value :: real

definition priceHistoryPoint ::
  "real \<Rightarrow> real \<Rightarrow> real \<Rightarrow> int \<Rightarrow> (nat \<Rightarrow> real) \<Rightarrow> int \<Rightarrow> HistoryPoint" where
  "priceHistoryPoint basePrice prevPrice vol points rnd i =
     (let position = real_of_int i / real_of_int (points - 1);
          trendFactor = (if position > 0.5 then (position - 0.5) * 2 else 0);
          baseValue = prevPrice * (1 - position) + basePrice * position;
          deviation = (rnd (nat (i - 1)) - 0.5) * vol * basePrice * 0.3;
          v = baseValue + deviation * (1 - trendFactor)
      in \<lparr>hp_value = v\<rparr>)"

function priceHistory_loop ::
  "real \<Rightarrow> real \<Rightarrow> real \<Rightarrow> int \<Rightarrow> (nat \<Rightarrow> real) \<Rightarrow> int \<Rightarrow> HistoryPoint list \<Rightarrow> HistoryPoint list"
  where
  "priceHistory_loop basePrice prevPrice vol points rnd i history =
     (if i < points - 1 then
        priceHistory_loop basePrice prevPrice vol points rnd (i + 1)
          (history @ [priceHistoryPoint basePrice prevPrice vol points rnd i])
      else history)"
  by pat_completeness auto
termination
  by (relation "measure (\<lambda>(basePrice, prevPrice, vol, points, rnd, i, history). nat (points - 1 - i))")
    auto

definition generatePriceHistory :: "Asset \<Rightarrow> (nat \<Rightarrow> real) \<Rightarrow> HistoryPoint list" where
  "generatePriceHistory asset rnd =
     (let points = 20;
          basePrice = price asset;
          prevPrice = previousPrice asset;
          vol = volatility asset;
          history0 = [\<lparr>hp_value = prevPrice\<rparr>];
          history1 = priceHistory_loop basePrice prevPrice vol points rnd 1 history0
      in history1 @ [\<lparr>hp_value = basePrice\<rparr>])"

text \<open>
  Inputs for the examples: the asset of the specification's example (previous price 100,
  price 120, volatility 0.1), and random sources that return one number at every call.
\<close>

definition example_asset :: Asset where
  "example_asset =
     \<lparr>asset_id = ''gold'', asset_name = ''Gold'', price = 120, previousPrice = 100,
      volatility = 0.1, color = ''gold''\<rparr>"

definition rnd_const :: "real \<Rightarrow> nat \<Rightarrow> real" where
  "rnd_const r k = r"

section \<open>The game session (the provider \<^verbatim>\<open>GameProvider\<close>, second unit of components/AssetList.tsx)\<close>

text \<open>
  The types \<^verbatim>\<open>GameState\<close>, \<^verbatim>\<open>TradeAction\<close> and the news item are declared in
  \<^verbatim>\<open>types/game\<close>, which is not among the sources: the records have the fields the
  provider reads or writes, and \<^verbatim>\<open>TradeAction\<close> the four actions the specification
  names. The object \<^verbatim>\<open>state.holdings\<close> is the list of its entries, in the order of
  \<^verbatim>\<open>Object.entries\<close>. The field \<^verbatim>\<open>round\<close> is \<open>round_number\<close>, the field \<^verbatim>\<open>id\<close> of a
  news item \<open>news_id\<close>.
\<close>

record Holding =
  quantity :: real
  shortQuantity :: real
  averageShortPrice :: real

record NewsItem =
  news_id :: string
  title :: string
  magnitude :: real
  impactedAssets :: "string list"
  chainId :: "string option"
  chainSequence :: "int option"

record GameState =
  cash :: real
  holdings :: "(string \<times> Holding) list"
  assets :: "Asset list"
  isPaused :: bool
  isGameOver :: bool
  round_number :: int
  timeRemaining :: real
  eventDensity :: real
  marketHealth :: real

datatype TradeAction = Buy | Sell | Short | Cover

record TradePayload =
  tp_assetId :: string
  tp_action :: TradeAction
  tp_amount :: real
  tp_price :: real
  tp_timestamp :: int

text \<open>The actions the provider dispatches to \<^verbatim>\<open>gameReducer\<close>, each with its payload.\<close>

datatype GameAction =
    TICK real
  | UPDATE_PRICES
  | ADD_NEWS NewsItem
  | EXPIRE_NEWS string
  | UPDATE_MARKET_HEALTH real
  | UPDATE_NET_WORTH int
  | EXECUTE_TRADE TradePayload
  | UPDATE_EVENT_DENSITY real
  | SET_LAST_NEWS_UPDATE int
  | START_GAME
  | END_GAME
  | NEXT_ROUND
  | UPDATE_MISSION_PROGRESS "string option"
  | COMPLETE_MISSION string
  | FAIL_MISSION string

text \<open>
  A callback handed to \<^verbatim>\<open>setTimeout\<close> is a closure: it is kept with the values of the
  variables it captured when it was created. The follow-up callback captures \<^verbatim>\<open>state\<close>
  (the constant of the render in which the frame callback was made; a reducer returns a new
  state and leaves this one as it was), \<^verbatim>\<open>chainId\<close> and \<^verbatim>\<open>newsItem\<close>; the expiry
  callback captures \<^verbatim>\<open>newsItem\<close>.
\<close>

datatype TimerCallback =
    FollowUpNews GameState string NewsItem
  | ExpireNews NewsItem

text \<open>
  What a handler does besides computing is the list of its effects, in the order of the
  source: actions dispatched, timers set (callback and delay in milliseconds), toasts
  (title, description, duration), updates of the provider's hooks, calls into the chart
  stores, and the request of the next animation frame.
\<close>

datatype Effect =
    Dispatch GameAction
  | SetTimeout TimerCallback int
  | ShowToast string string int
  | SetLastTickTime real
  | SetLastPriceUpdate int
  | SetLastNetWorthUpdate int
  | SetEventSchedule "real list"
  | RemoveFromEventSchedule nat
  | CallUpdateAssetPriceHistory string real int
  | CallUpdatePortfolioHistory real int
  | RequestAnimationFrame

text \<open>
  The collaborators that are not among the sources (\<^verbatim>\<open>utils/newsGenerator\<close>,
  \<^verbatim>\<open>utils/difficultyManager\<close>, \<^verbatim>\<open>uuid\<close>) and \<^verbatim>\<open>Math.random\<close> are parameters. They
  are not functions of their arguments alone, so those called in the frame callback take a
  number that tells the calls of one frame apart: the index of the schedule entry for the
  calls made while that entry is handled, and the two numbers after the last index for the
  two draws of the market health.
\<close>

record Env =
  generateMarketNews :: "nat \<Rightarrow> Asset list \<Rightarrow> int \<Rightarrow> bool \<Rightarrow> NewsItem"
  shouldBeHighImpactEvent :: "nat \<Rightarrow> real \<Rightarrow> bool"
  shouldBeChainedEvent :: "nat \<Rightarrow> real \<Rightarrow> bool"
  uuidv4 :: "nat \<Rightarrow> string"
  Math_random :: "nat \<Rightarrow> real"
  getRoundEventDensity :: "int \<Rightarrow> real"
  calculateRoundEventCount :: "real \<Rightarrow> int"
  scheduleRoundEvents :: "int \<Rightarrow> int \<Rightarrow> real \<Rightarrow> real list"

definition PRICE_UPDATE_INTERVAL :: int where
  "PRICE_UPDATE_INTERVAL = 1000"

subsection \<open>Net worth\<close>

definition calculateNetWorth :: "GameState \<Rightarrow> real" where
  "calculateNetWorth state =
     fold (\<lambda>(assetId, holding) netWorth.
             (case find (\<lambda>a. asset_id a = assetId) (assets state) of
                None \<Rightarrow> netWorth
              | Some asset \<Rightarrow>
                  (let netWorth1 = netWorth + quantity holding * price asset
                   in if shortQuantity holding > 0 then
                        (let shortProfit =
                               shortQuantity holding * (averageShortPrice holding - price asset)
                         in netWorth1 + shortProfit)
                      else netWorth1)))
          (holdings state) (cash state)"

subsection \<open>Trades\<close>

text \<open>
  The error kinds of the specification. No path of \<^verbatim>\<open>executeTrade\<close> constructs one: the
  function is declared \<^verbatim>\<open>=> void\<close> and returns \<^verbatim>\<open>undefined\<close> on every path, which is
  \<open>None\<close> in the first component of the model's result; the second component is the list of
  its effects.
\<close>

datatype TradeError = InsufficientFunds | InsufficientHoldings | InvalidAsset | InvalidState

definition executeTrade ::
  "GameState \<Rightarrow> string \<Rightarrow> TradeAction \<Rightarrow> real \<Rightarrow> int \<Rightarrow> TradeError option \<times> Effect list" where
  "executeTrade state assetId action amount now =
     (if isGameOver state then (None, [])
      else
        (case find (\<lambda>a. asset_id a = assetId) (assets state) of
           None \<Rightarrow> (None, [])
         | Some asset \<Rightarrow>
             (None,
              [Dispatch (EXECUTE_TRADE
                 \<lparr>tp_assetId = assetId, tp_action = action, tp_amount = amount,
                  tp_price = price asset, tp_timestamp = now\<rparr>)])))"

text \<open>
  The state after a handler has run is the reducer applied to the actions it dispatched, in
  order. \<^verbatim>\<open>gameReducer\<close> is not among the sources and is a parameter.
\<close>

fun dispatched :: "Effect list \<Rightarrow> GameAction list" where
  "dispatched [] = []"
| "dispatched (Dispatch a # es) = a # dispatched es"
| "dispatched (e # es) = dispatched es"

definition reduceAll ::
  "(GameState \<Rightarrow> GameAction \<Rightarrow> GameState) \<Rightarrow> GameState \<Rightarrow> Effect list \<Rightarrow> GameState" where
  "reduceAll gameReducer state es = foldl gameReducer state (dispatched es)"

subsection \<open>Scheduling the news events of a round\<close>


subsection \<open>The frame callback \<^verbatim>\<open>updateTimer\<close> and the timer callbacks\<close>

text \<open>
  The body of \<^verbatim>\<open>eventSchedule.forEach((timing, index) => ...)\<close> for one entry of the
  schedule.
\<close>

definition newsEvent :: "Env \<Rightarrow> GameState \<Rightarrow> nat \<Rightarrow> real \<Rightarrow> Effect list" where
  "newsEvent env state index timing =
     (let elapsedTime = 60 - timeRemaining state;
          elapsedMs = elapsedTime * 1000
      in if \<bar>elapsedMs - timing\<bar> < 100 then
           (let density = eventDensity state;
                newsItem0 = generateMarketNews env index (assets state) (round_number state)
                              (shouldBeHighImpactEvent env index density);
                chained = shouldBeChainedEvent env index density;
                cid = uuidv4 env index;
                newsItem = (if chained
                            then newsItem0\<lparr>chainId := Some cid, chainSequence := Some 1\<rparr>
                            else newsItem0);
                followUpDelay = \<lfloor>Math_random env index * 10000\<rfloor> + 5000
            in (if chained then [SetTimeout (FollowUpNews state cid newsItem) followUpDelay]
                else [])
               @ [Dispatch (ADD_NEWS newsItem), RemoveFromEventSchedule index]
               @ (if magnitude newsItem > 0.7
                  then [ShowToast ''Breaking News!'' (title newsItem) 4000]
                  else [])
               @ [SetTimeout (ExpireNews newsItem) 15000])
         else [])"

definition checkScheduledNews :: "Env \<Rightarrow> GameState \<Rightarrow> real list \<Rightarrow> Effect list" where
  "checkScheduledNews env state eventSchedule =
     concat (map (\<lambda>(index, timing). newsEvent env state index timing)
                 (enumerate 0 eventSchedule))"

text \<open>
  \<^verbatim>\<open>updateTimer(timestamp)\<close>, with the values its closure captured (\<^verbatim>\<open>state\<close>,
  \<^verbatim>\<open>lastTickTime\<close>, \<^verbatim>\<open>lastPriceUpdate\<close>, \<^verbatim>\<open>lastNetWorthUpdate\<close>,
  \<^verbatim>\<open>eventSchedule\<close>) and its reading \<open>now\<close> of \<^verbatim>\<open>Date.now()\<close>.
\<close>

definition updateTimer ::
  "Env \<Rightarrow> GameState \<Rightarrow> real option \<Rightarrow> int \<Rightarrow> int \<Rightarrow> real list \<Rightarrow> real \<Rightarrow> int \<Rightarrow> Effect list"
  where
  "updateTimer env state lastTickTime lastPriceUpdate lastNetWorthUpdate eventSchedule
       timestamp now =
     (if \<not> isGameOver state then
        (case lastTickTime of
           None \<Rightarrow> [SetLastTickTime timestamp]
         | Some lastTick \<Rightarrow>
             (let deltaTime = (timestamp - lastTick) / 1000
              in [Dispatch (TICK deltaTime)]
                 @ (if now - lastPriceUpdate \<ge> PRICE_UPDATE_INTERVAL then
                      [Dispatch UPDATE_PRICES]
                      @ map (\<lambda>asset. CallUpdateAssetPriceHistory (asset_id asset) (price asset) now)
                            (assets state)
                      @ [SetLastPriceUpdate now]
                    else [])
                 @ (if \<not> isPaused state then checkScheduledNews env state eventSchedule
                    else [])
                 @ (if Math_random env (length eventSchedule) < 0.02 then
                      (let healthChange = Math_random env (Suc (length eventSchedule)) * 6 - 3;
                           newHealth = max 0 (min 100 (marketHealth state + healthChange))
                       in [Dispatch (UPDATE_MARKET_HEALTH newHealth)])
                    else [])
                 @ (if now - lastNetWorthUpdate \<ge> PRICE_UPDATE_INTERVAL then
                      (let netWorth = calculateNetWorth state
                       in [Dispatch (UPDATE_NET_WORTH now),
                           CallUpdatePortfolioHistory netWorth now,
                           SetLastNetWorthUpdate now])
                    else [])
                 @ [SetLastTickTime timestamp]))
      else [])
     @ [RequestAnimationFrame]"

text \<open>
  Running a timer callback when its timer fires. The guard of the follow-up reads the
  captured \<^verbatim>\<open>state\<close>, not the state of the session at that moment; \<open>k\<close> tells its call of
  \<^verbatim>\<open>generateMarketNews\<close> apart from the others.
\<close>

fun runCallback :: "Env \<Rightarrow> nat \<Rightarrow> TimerCallback \<Rightarrow> Effect list" where
  "runCallback env k (FollowUpNews state cid newsItem) =
     (if \<not> isPaused state \<and> \<not> isGameOver state then
        (let followUpNews = generateMarketNews env k (assets state) (round_number state) True
         in [Dispatch (ADD_NEWS
               (followUpNews
                  \<lparr>chainId := Some cid,
                   chainSequence := Some 2,
                   title := ''UPDATE: '' @ title followUpNews,
                   impactedAssets := impactedAssets newsItem,
                   magnitude := magnitude newsItem * 1.5\<rparr>))])
      else [])"
| "runCallback env k (ExpireNews newsItem) = [Dispatch (EXPIRE_NEWS (news_id newsItem))]"

text \<open>The timers an effect list sets, and the news items it adds.\<close>

fun timersSet :: "Effect list \<Rightarrow> (TimerCallback \<times> int) list" where
  "timersSet [] = []"
| "timersSet (SetTimeout cb delay # es) = (cb, delay) # timersSet es"
| "timersSet (e # es) = timersSet es"

fun newsAdded :: "Effect list \<Rightarrow> NewsItem list" where
  "newsAdded [] = []"
| "newsAdded (Dispatch (ADD_NEWS n) # es) = n # newsAdded es"
| "newsAdded (e # es) = newsAdded es"

subsection \<open>Inputs for the examples\<close>

text \<open>
  The snapshot of the specification's net worth example: cash 1000, two units held of an
  asset priced 50, one unit short at an average short price of 40 of an asset priced 30; the
  game is running, 10 seconds into round 1. The same snapshot with the game over, and paused.
\<close>

definition example_state :: GameState where
  "example_state =
     \<lparr>cash = 1000,
      holdings =
        [(''stock'', \<lparr>quantity = 2, shortQuantity = 0, averageShortPrice = 0\<rparr>),
         (''oil'', \<lparr>quantity = 0, shortQuantity = 1, averageShortPrice = 40\<rparr>)],
      assets =
        [\<lparr>asset_id = ''stock'', asset_name = ''Stock'', price = 50, previousPrice = 48,
          volatility = 0.1, color = ''stock''\<rparr>,
         \<lparr>asset_id = ''oil'', asset_name = ''Oil'', price = 30, previousPrice = 33,
          volatility = 0.2, color = ''oil''\<rparr>],
      isPaused = False, isGameOver = False, round_number = 1, timeRemaining = 50,
      eventDensity = 1, marketHealth = 50\<rparr>"

definition gameover_state :: GameState where
  "gameover_state = example_state\<lparr>isGameOver := True\<rparr>"


text \<open>
  Collaborators for the examples: every scheduled event is chained and of moderate impact,
  the news generator returns the item \<open>news-a\<close> at its call number 0 and another item,
  \<open>news-b\<close> on another asset, at every other call, and every random draw is 0.5 (so a
  follow-up is delayed by 10000 ms and the market health stays). With them, the news item
  the frame of the example adds, and the follow-up item its timer adds.
\<close>

definition example_env :: Env where
  "example_env =
     \<lparr>generateMarketNews = (\<lambda>k as r highImpact.
          \<lparr>news_id = (if k = 0 then ''news-a'' else ''news-b''),
           title = ''Oil supply shock'',
           magnitude = (if k = 0 then 0.5 else 0.25),
           impactedAssets = (if k = 0 then [''oil''] else [''stock'']),
           chainId = None, chainSequence = None\<rparr>),
      shouldBeHighImpactEvent = (\<lambda>k density. False),
      shouldBeChainedEvent = (\<lambda>k density. True),
      uuidv4 = (\<lambda>k. ''chain-a''),
      Math_random = (\<lambda>k. 0.5),
      getRoundEventDensity = (\<lambda>r. 1),
      calculateRoundEventCount = (\<lambda>density. 1),
      scheduleRoundEvents = (\<lambda>eventCount duration density. [10000])\<rparr>"

definition example_news :: NewsItem where
  "example_news =
     \<lparr>news_id = ''news-a'', title = ''Oil supply shock'', magnitude = 0.5,
      impactedAssets = [''oil''], chainId = Some ''chain-a'', chainSequence = Some 1\<rparr>"

definition example_followUp :: NewsItem where
  "example_followUp =
     \<lparr>news_id = ''news-b'', title = ''UPDATE: Oil supply shock'', magnitude = 0.75,
      impactedAssets = [''oil''], chainId = Some ''chain-a'', chainSequence = Some 2\<rparr>"

subsection \<open>The frame effect and its dependencies\<close>







section \<open>Properties of the chart data management\<close>

subsection \<open>The per-asset series\<close>

text \<open>The rescan of a non-empty array gives its least and its greatest element.\<close>

lemma Math_min_spread_Min: "xs \<noteq> [] \<Longrightarrow> Math_min_spread xs = Min (set xs)"
  by (cases xs) (simp_all add: Math_min_spread_def Min.set_eq_fold [symmetric])

lemma Math_max_spread_Max: "xs \<noteq> [] \<Longrightarrow> Math_max_spread xs = Max (set xs)"
  by (cases xs) (simp_all add: Math_max_spread_def Max.set_eq_fold [symmetric])

lemma pushAssetPrice_inv:
  assumes "asset_inv h"
  shows "asset_inv (pushAssetPrice h newPrice timestamp)"
proof (cases "length (a_prices h) < 50")
  case True
  with assms show ?thesis
    by (simp add: asset_inv_def pushAssetPrice_def Let_def min.commute max.commute)
next
  case False
  with assms have len: "length (a_prices h) = 50"
    by (simp add: asset_inv_def)
  then have ne: "tl (a_prices h @ [newPrice]) \<noteq> []"
    by (cases "a_prices h") auto
  from len assms ne show ?thesis
    by (simp add: asset_inv_def pushAssetPrice_def Let_def
        Math_min_spread_Min Math_max_spread_Max)
qed

lemma store_inv_empty: "store_inv Map.empty"
  by (simp add: store_inv_def)

lemma updateAssetPriceHistory_inv:
  assumes "store_inv s"
  shows "store_inv (updateAssetPriceHistory s assetId newPrice timestamp now)"
proof (cases "s assetId")
  case None
  have "asset_inv \<lparr>a_timestamps = [now], a_prices = [newPrice], a_min = newPrice, a_max = newPrice,
        a_data = [\<lparr>cdp_value = newPrice, cdp_timestamp = now\<rparr>]\<rparr>"
    by (simp add: asset_inv_def)
  with assms None show ?thesis
    unfolding store_inv_def updateAssetPriceHistory_def initAssetPriceHistory_def
    by (auto simp: ran_def)
next
  case (Some h)
  with assms have "asset_inv h" by (auto simp: store_inv_def ran_def)
  then have "asset_inv (pushAssetPrice h newPrice timestamp)" by (rule pushAssetPrice_inv)
  with assms Some show ?thesis
    unfolding store_inv_def updateAssetPriceHistory_def
    by (auto simp: ran_def)
qed

lemma appendAssetPrices_inv: "store_inv s \<Longrightarrow> store_inv (appendAssetPrices s calls)"
  unfolding appendAssetPrices_def
  by (induction calls arbitrary: s) (auto simp: updateAssetPriceHistory_inv)

subsection \<open>The portfolio series\<close>

lemma port_inv_init: "port_inv portfolioHistory"
  by (simp add: port_inv_def portfolioHistory_def)

lemma updatePortfolioHistory_values:
  "p_values (updatePortfolioHistory ph v timestamp event) =
     (if 200 \<le> length (p_values ph) then tl (p_values ph @ [v]) else p_values ph @ [v])"
  by (auto simp: updatePortfolioHistory_def Let_def split: option.splits)

lemma updatePortfolioHistory_timestamps:
  "p_timestamps (updatePortfolioHistory ph v timestamp event) =
     (if 200 \<le> length (p_values ph) then tl (p_timestamps ph @ [timestamp])
      else p_timestamps ph @ [timestamp])"
  by (auto simp: updatePortfolioHistory_def Let_def split: option.splits)

lemma updatePortfolioHistory_data:
  "p_data (updatePortfolioHistory ph v timestamp event) =
     (if 200 \<le> length (p_values ph)
      then tl (p_data ph @ [\<lparr>cdp_value = v, cdp_timestamp = timestamp\<rparr>])
      else p_data ph @ [\<lparr>cdp_value = v, cdp_timestamp = timestamp\<rparr>])"
  by (auto simp: updatePortfolioHistory_def Let_def split: option.splits)

lemma updatePortfolioHistory_min_first:
  "p_values ph = [] \<Longrightarrow> p_min (updatePortfolioHistory ph v timestamp event) = v * 0.9"
  by (auto simp: updatePortfolioHistory_def Let_def split: option.splits)

lemma updatePortfolioHistory_max_first:
  "p_values ph = [] \<Longrightarrow> p_max (updatePortfolioHistory ph v timestamp event) = v * 1.1"
  by (auto simp: updatePortfolioHistory_def Let_def split: option.splits)

lemma updatePortfolioHistory_min_later:
  "p_values ph \<noteq> [] \<Longrightarrow>
     p_min (updatePortfolioHistory ph v timestamp event) = min (p_min ph) (v * 0.9)"
  by (auto simp: updatePortfolioHistory_def Let_def split: option.splits)

lemma updatePortfolioHistory_max_later:
  "p_values ph \<noteq> [] \<Longrightarrow>
     p_max (updatePortfolioHistory ph v timestamp event) = max (p_max ph) (v * 1.1)"
  by (auto simp: updatePortfolioHistory_def Let_def split: option.splits)

lemma updatePortfolioHistory_nonempty:
  "p_values (updatePortfolioHistory ph v timestamp event) \<noteq> []"
  by (cases "p_values ph") (auto simp: updatePortfolioHistory_values)

lemma updatePortfolioHistory_inv:
  "port_inv ph \<Longrightarrow> port_inv (updatePortfolioHistory ph v timestamp event)"
  by (auto simp: port_inv_def updatePortfolioHistory_values updatePortfolioHistory_timestamps
      updatePortfolioHistory_data)

lemma appendPortfolioValues_Nil: "appendPortfolioValues ph [] = ph"
  by (simp add: appendPortfolioValues_def)

lemma appendPortfolioValues_Cons:
  "appendPortfolioValues ph ((v, timestamp, event) # calls) =
     appendPortfolioValues (updatePortfolioHistory ph v timestamp event) calls"
  by (simp add: appendPortfolioValues_def)

lemma appendPortfolioValues_inv: "port_inv ph \<Longrightarrow> port_inv (appendPortfolioValues ph calls)"
proof (induction calls arbitrary: ph)
  case Nil
  then show ?case by (simp add: appendPortfolioValues_Nil)
next
  case (Cons c calls)
  obtain v timestamp event where c: "c = (v, timestamp, event)" by (cases c) auto
  from Cons show ?case
    unfolding c appendPortfolioValues_Cons by (simp add: updatePortfolioHistory_inv)
qed

text \<open>The stored values are the most recent 200 of the values appended, in order.\<close>

lemma appendPortfolioValues_values:
  "length (p_values ph) \<le> 200 \<Longrightarrow>
     p_values (appendPortfolioValues ph calls) =
       drop (length (p_values ph) + length calls - 200) (p_values ph @ map fst calls)"
proof (induction calls arbitrary: ph)
  case Nil
  then show ?case by (simp add: appendPortfolioValues_Nil)
next
  case (Cons c calls)
  obtain v timestamp event where c: "c = (v, timestamp, event)" by (cases c) auto
  let ?ph = "updatePortfolioHistory ph v timestamp event"
  show ?case
  proof (cases "length (p_values ph) = 200")
    case True
    then have vs: "p_values ?ph = tl (p_values ph) @ [v]"
      by (cases "p_values ph") (auto simp: updatePortfolioHistory_values)
    with True have len: "length (p_values ?ph) = 200" by simp
    have "p_values (appendPortfolioValues ?ph calls) =
        drop (length calls) ((tl (p_values ph) @ [v]) @ map fst calls)"
      using Cons.IH [of ?ph] len vs by simp
    also have "\<dots> = drop (Suc (length calls)) (p_values ph @ v # map fst calls)"
      using True by (cases "p_values ph") auto
    finally show ?thesis
      unfolding c appendPortfolioValues_Cons using True by simp
  next
    case False
    with Cons.prems have lt: "length (p_values ph) < 200" by simp
    then have vs: "p_values ?ph = p_values ph @ [v]"
      by (simp add: updatePortfolioHistory_values)
    with lt have "length (p_values ?ph) \<le> 200" by simp
    from Cons.IH [OF this] vs lt show ?thesis
      unfolding c appendPortfolioValues_Cons by simp
  qed
qed

text \<open>Once the series is non-empty, the bounds only widen, and cover every later value.\<close>

lemma appendPortfolioValues_bounds_later:
  "p_values ph \<noteq> [] \<Longrightarrow>
     p_min (appendPortfolioValues ph calls) \<le> p_min ph \<and>
     p_max ph \<le> p_max (appendPortfolioValues ph calls) \<and>
     (\<forall>v \<in> fst ` set calls.
        p_min (appendPortfolioValues ph calls) \<le> v * 0.9 \<and>
        v * 1.1 \<le> p_max (appendPortfolioValues ph calls))"
proof (induction calls arbitrary: ph)
  case Nil
  then show ?case by (simp add: appendPortfolioValues_Nil)
next
  case (Cons c calls)
  obtain v timestamp event where c: "c = (v, timestamp, event)" by (cases c) auto
  let ?ph = "updatePortfolioHistory ph v timestamp event"
  have ne: "p_values ?ph \<noteq> []" by (rule updatePortfolioHistory_nonempty)
  have mn: "p_min ?ph = min (p_min ph) (v * 0.9)"
    using Cons.prems by (rule updatePortfolioHistory_min_later)
  have mx: "p_max ?ph = max (p_max ph) (v * 1.1)"
    using Cons.prems by (rule updatePortfolioHistory_max_later)
  from Cons.IH [OF ne] mn mx show ?case
    unfolding c appendPortfolioValues_Cons by auto
qed

lemma appendPortfolioValues_bounds:
  "p_values ph = [] \<Longrightarrow> v \<in> fst ` set calls \<Longrightarrow>
     p_min (appendPortfolioValues ph calls) \<le> v * 0.9 \<and>
     v * 1.1 \<le> p_max (appendPortfolioValues ph calls)"
proof (cases calls)
  case Nil
  then show "v \<in> fst ` set calls \<Longrightarrow> ?thesis" by simp
next
  case (Cons c rest)
  assume e: "p_values ph = []" and v: "v \<in> fst ` set calls"
  obtain w timestamp event where c: "c = (w, timestamp, event)" by (cases c) auto
  let ?ph = "updatePortfolioHistory ph w timestamp event"
  have ne: "p_values ?ph \<noteq> []" by (rule updatePortfolioHistory_nonempty)
  have mn: "p_min ?ph = w * 0.9" using e by (rule updatePortfolioHistory_min_first)
  have mx: "p_max ?ph = w * 1.1" using e by (rule updatePortfolioHistory_max_first)
  from appendPortfolioValues_bounds_later [OF ne, of rest] mn mx v show ?thesis
    unfolding Cons c appendPortfolioValues_Cons by auto
qed

lemma appendAssetPrices_reachable:
  "appendAssetPrices Map.empty calls assetId = Some h \<Longrightarrow> asset_inv h"
  using appendAssetPrices_inv [OF store_inv_empty, of calls]
  by (auto simp: store_inv_def ran_def)

lemma pushAssetPrice_prices:
  "a_prices (pushAssetPrice h newPrice timestamp) =
     (if 50 \<le> length (a_prices h) then tl (a_prices h @ [newPrice]) else a_prices h @ [newPrice])"
  by (auto simp: pushAssetPrice_def Let_def)

lemma pushAssetPrice_timestamps:
  "a_timestamps (pushAssetPrice h newPrice timestamp) =
     (if 50 \<le> length (a_prices h) then tl (a_timestamps h @ [timestamp])
      else a_timestamps h @ [timestamp])"
  by (auto simp: pushAssetPrice_def Let_def)

lemma pushAssetPrice_data:
  "a_data (pushAssetPrice h newPrice timestamp) =
     (if 50 \<le> length (a_prices h)
      then tl (a_data h @ [\<lparr>cdp_value = newPrice, cdp_timestamp = timestamp\<rparr>])
      else a_data h @ [\<lparr>cdp_value = newPrice, cdp_timestamp = timestamp\<rparr>])"
  by (auto simp: pushAssetPrice_def Let_def)

lemma pushAssetPrice_rescan:
  assumes "50 \<le> length (a_prices h)"
  shows "a_min (pushAssetPrice h newPrice timestamp) =
           Math_min_spread (a_prices (pushAssetPrice h newPrice timestamp)) \<and>
         a_max (pushAssetPrice h newPrice timestamp) =
           Math_max_spread (a_prices (pushAssetPrice h newPrice timestamp))"
proof -
  from assms have "tl (a_prices h @ [newPrice]) \<noteq> []" by (cases "a_prices h") auto
  with assms show ?thesis by (simp add: pushAssetPrice_def Let_def)
qed

lemma updateAssetPriceHistory_Some:
  "store assetId = Some h \<Longrightarrow>
     updateAssetPriceHistory store assetId newPrice timestamp now assetId =
       Some (pushAssetPrice h newPrice timestamp)"
  by (simp add: updateAssetPriceHistory_def)

lemma appendPortfolioValues_replicate_min:
  "p_values ph \<noteq> [] \<Longrightarrow> p_min ph \<le> fst c * 0.9 \<Longrightarrow>
     p_min (appendPortfolioValues ph (replicate n c)) = p_min ph"
proof (induction n arbitrary: ph)
  case 0
  then show ?case by (simp add: appendPortfolioValues_Nil)
next
  case (Suc n)
  obtain v timestamp event where c: "c = (v, timestamp, event)" by (cases c) auto
  let ?ph = "updatePortfolioHistory ph v timestamp event"
  have ne: "p_values ?ph \<noteq> []" by (rule updatePortfolioHistory_nonempty)
  have mn: "p_min ?ph = p_min ph"
    using Suc.prems by (simp add: updatePortfolioHistory_min_later c)
  from Suc.IH [OF ne] mn Suc.prems show ?case
    by (simp add: c appendPortfolioValues_Cons)
qed

text \<open>
  Claim C3. Starting from the empty stores of the module, after any sequence of appends
  (hence after each append of it) no per-asset series holds more than 50 points and the
  portfolio series holds no more than 200, in each of the parallel arrays. An append to a
  series at its cap returns the series with its oldest point, and only that one, removed
  and the new point last; an append below the cap removes nothing.
\<close>

theorem history_length_capped:
  "(appendAssetPrices Map.empty calls assetId = Some h \<longrightarrow>
      length (a_prices h) \<le> 50 \<and> length (a_timestamps h) \<le> 50 \<and> length (a_data h) \<le> 50) \<and>
   (length (p_values (appendPortfolioValues portfolioHistory pcalls)) \<le> 200 \<and>
    length (p_timestamps (appendPortfolioValues portfolioHistory pcalls)) \<le> 200 \<and>
    length (p_data (appendPortfolioValues portfolioHistory pcalls)) \<le> 200) \<and>
   (store assetId = Some h0 \<and> 50 \<le> length (a_prices h0) \<longrightarrow>
      (\<exists>h'. updateAssetPriceHistory store assetId newPrice timestamp now assetId = Some h' \<and>
         a_prices h' = tl (a_prices h0) @ [newPrice] \<and>
         a_timestamps h' = tl (a_timestamps h0 @ [timestamp]) \<and>
         a_data h' = tl (a_data h0 @ [\<lparr>cdp_value = newPrice, cdp_timestamp = timestamp\<rparr>]))) \<and>
   (store assetId = Some h0 \<and> length (a_prices h0) < 50 \<longrightarrow>
      (\<exists>h'. updateAssetPriceHistory store assetId newPrice timestamp now assetId = Some h' \<and>
         a_prices h' = a_prices h0 @ [newPrice])) \<and>
   (200 \<le> length (p_values ph) \<longrightarrow>
      p_values (updatePortfolioHistory ph v timestamp event) = tl (p_values ph) @ [v] \<and>
      p_timestamps (updatePortfolioHistory ph v timestamp event) =
        tl (p_timestamps ph @ [timestamp]) \<and>
      p_data (updatePortfolioHistory ph v timestamp event) =
        tl (p_data ph @ [\<lparr>cdp_value = v, cdp_timestamp = timestamp\<rparr>])) \<and>
   (length (p_values ph) < 200 \<longrightarrow>
      p_values (updatePortfolioHistory ph v timestamp event) = p_values ph @ [v])"
proof (intro conjI impI)
  assume "appendAssetPrices Map.empty calls assetId = Some h"
  then have inv: "asset_inv h" by (rule appendAssetPrices_reachable)
  then show "length (a_prices h) \<le> 50" by (simp add: asset_inv_def)
  from inv show "length (a_timestamps h) \<le> 50" by (simp add: asset_inv_def)
  from inv show "length (a_data h) \<le> 50" by (simp add: asset_inv_def)
next
  have inv: "port_inv (appendPortfolioValues portfolioHistory pcalls)"
    using port_inv_init by (rule appendPortfolioValues_inv)
  then show "length (p_values (appendPortfolioValues portfolioHistory pcalls)) \<le> 200"
    by (simp add: port_inv_def)
  from inv show "length (p_timestamps (appendPortfolioValues portfolioHistory pcalls)) \<le> 200"
    by (simp add: port_inv_def)
  from inv show "length (p_data (appendPortfolioValues portfolioHistory pcalls)) \<le> 200"
    by (simp add: port_inv_def)
next
  assume a: "store assetId = Some h0 \<and> 50 \<le> length (a_prices h0)"
  then have "tl (a_prices h0 @ [newPrice]) = tl (a_prices h0) @ [newPrice]"
    by (cases "a_prices h0") auto
  with a show "\<exists>h'. updateAssetPriceHistory store assetId newPrice timestamp now assetId = Some h' \<and>
         a_prices h' = tl (a_prices h0) @ [newPrice] \<and>
         a_timestamps h' = tl (a_timestamps h0 @ [timestamp]) \<and>
         a_data h' = tl (a_data h0 @ [\<lparr>cdp_value = newPrice, cdp_timestamp = timestamp\<rparr>])"
    by (simp add: updateAssetPriceHistory_Some pushAssetPrice_prices
        pushAssetPrice_timestamps pushAssetPrice_data)
next
  assume "store assetId = Some h0 \<and> length (a_prices h0) < 50"
  then show "\<exists>h'. updateAssetPriceHistory store assetId newPrice timestamp now assetId = Some h' \<and>
         a_prices h' = a_prices h0 @ [newPrice]"
    by (simp add: updateAssetPriceHistory_Some pushAssetPrice_prices)
next
  assume a: "200 \<le> length (p_values ph)"
  then have "tl (p_values ph @ [v]) = tl (p_values ph) @ [v]"
    by (cases "p_values ph") auto
  with a show "p_values (updatePortfolioHistory ph v timestamp event) = tl (p_values ph) @ [v]"
    by (simp add: updatePortfolioHistory_values)
  from a show "p_timestamps (updatePortfolioHistory ph v timestamp event) =
        tl (p_timestamps ph @ [timestamp])"
    by (simp add: updatePortfolioHistory_timestamps)
  from a show "p_data (updatePortfolioHistory ph v timestamp event) =
        tl (p_data ph @ [\<lparr>cdp_value = v, cdp_timestamp = timestamp\<rparr>])"
    by (simp add: updatePortfolioHistory_data)
next
  assume "length (p_values ph) < 200"
  then show "p_values (updatePortfolioHistory ph v timestamp event) = p_values ph @ [v]"
    by (simp add: updatePortfolioHistory_values)
qed

theorem history_length_capped_witness:
  "appendAssetPrices Map.empty [(''gold'', 5, 1, 2), (''gold'', 6, 3, 4)] ''gold'' =
     Some short_asset_history \<and>
   length (a_prices short_asset_history) \<le> 50 \<and>
   length (a_timestamps short_asset_history) \<le> 50 \<and>
   length (a_data short_asset_history) \<le> 50 \<and>
   [''gold'' \<mapsto> full_asset_history] ''gold'' = Some full_asset_history \<and>
   50 \<le> length (a_prices full_asset_history) \<and>
   (\<exists>h'. updateAssetPriceHistory [''gold'' \<mapsto> full_asset_history] ''gold'' 7 8 9 ''gold'' = Some h' \<and>
      a_prices h' = replicate 49 1 @ [7]) \<and>
   [''gold'' \<mapsto> short_asset_history] ''gold'' = Some short_asset_history \<and>
   length (a_prices short_asset_history) < 50 \<and>
   (\<exists>h'. updateAssetPriceHistory [''gold'' \<mapsto> short_asset_history] ''gold'' 7 8 9 ''gold'' = Some h' \<and>
      a_prices h' = [5, 6, 7]) \<and>
   200 \<le> length (p_values full_portfolio_history) \<and>
   p_values (updatePortfolioHistory full_portfolio_history 7 8 None) = replicate 199 100 @ [7] \<and>
   length (p_values portfolioHistory) < 200 \<and>
   p_values (updatePortfolioHistory portfolioHistory 7 8 None) = [7]"
proof -
  have run: "appendAssetPrices Map.empty [(''gold'', 5, 1, 2), (''gold'', 6, 3, 4)] ''gold'' =
      Some short_asset_history"
    by (simp add: appendAssetPrices_def updateAssetPriceHistory_def initAssetPriceHistory_def
        pushAssetPrice_def Let_def short_asset_history_def)
  have full: "50 \<le> length (a_prices full_asset_history)"
    by (simp add: full_asset_history_def)
  have short: "length (a_prices short_asset_history) < 50"
    by (simp add: short_asset_history_def)
  have pfull: "200 \<le> length (p_values full_portfolio_history)"
    by (simp add: full_portfolio_history_def)
  have pempty: "length (p_values portfolioHistory) < 200"
    by (simp add: portfolioHistory_def)
  have st: "[''gold'' \<mapsto> full_asset_history] ''gold'' = Some full_asset_history"
    by simp
  have st': "[''gold'' \<mapsto> short_asset_history] ''gold'' = Some short_asset_history"
    by simp
  note T1 = history_length_capped [where calls = "[(''gold'', 5, 1, 2), (''gold'', 6, 3, 4)]"
      and assetId = "''gold''" and h = short_asset_history and pcalls = "[]"
      and store = "[''gold'' \<mapsto> full_asset_history]" and ?h0.0 = full_asset_history
      and newPrice = 7 and timestamp = 8 and now = 9 and ph = full_portfolio_history
      and v = 7 and event = None]
  note T2 = history_length_capped [where calls = "[]" and assetId = "''gold''"
      and h = short_asset_history and pcalls = "[]"
      and store = "[''gold'' \<mapsto> short_asset_history]" and ?h0.0 = short_asset_history
      and newPrice = 7 and timestamp = 8 and now = 9 and ph = portfolioHistory
      and v = 7 and event = None]
  from T1 run have len: "length (a_prices short_asset_history) \<le> 50 \<and>
      length (a_timestamps short_asset_history) \<le> 50 \<and>
      length (a_data short_asset_history) \<le> 50"
    by blast
  from T1 st full have "\<exists>h'. updateAssetPriceHistory [''gold'' \<mapsto> full_asset_history]
      ''gold'' 7 8 9 ''gold'' = Some h' \<and> a_prices h' = tl (a_prices full_asset_history) @ [7]"
    by blast
  then have ev: "\<exists>h'. updateAssetPriceHistory [''gold'' \<mapsto> full_asset_history]
      ''gold'' 7 8 9 ''gold'' = Some h' \<and> a_prices h' = replicate 49 1 @ [7]"
    by (simp add: full_asset_history_def)
  from T2 st' short have "\<exists>h'. updateAssetPriceHistory [''gold'' \<mapsto> short_asset_history]
      ''gold'' 7 8 9 ''gold'' = Some h' \<and> a_prices h' = a_prices short_asset_history @ [7]"
    by blast
  then have nev: "\<exists>h'. updateAssetPriceHistory [''gold'' \<mapsto> short_asset_history]
      ''gold'' 7 8 9 ''gold'' = Some h' \<and> a_prices h' = [5, 6, 7]"
    by (simp add: short_asset_history_def)
  from T1 pfull have "p_values (updatePortfolioHistory full_portfolio_history 7 8 None) =
      tl (p_values full_portfolio_history) @ [7]"
    by blast
  then have pev: "p_values (updatePortfolioHistory full_portfolio_history 7 8 None) =
      replicate 199 100 @ [7]"
    by (simp add: full_portfolio_history_def)
  from T2 pempty have "p_values (updatePortfolioHistory portfolioHistory 7 8 None) =
      p_values portfolioHistory @ [7]"
    by blast
  then have pne: "p_values (updatePortfolioHistory portfolioHistory 7 8 None) = [7]"
    by (simp add: portfolioHistory_def)
  from run len st full ev st' short nev pfull pev pempty pne show ?thesis
    by blast
qed

text \<open>
  Claim C4, as amended. Per asset: after any sequence of appends from the empty store the
  stored min and max are the least and the greatest of the prices now stored, and an append
  that evicts recomputes both by a scan of the prices that remain. Portfolio: an append to a
  non-empty series, evicting or not, leaves min at the lesser of the old min and 0.9 times
  the new value, and max at the greater of the old max and 1.1 times the new value; the
  eviction does not recompute them.
\<close>

theorem asset_minmax_rescanned_portfolio_minmax_running:
  "(appendAssetPrices Map.empty calls assetId = Some h \<longrightarrow>
      a_prices h \<noteq> [] \<and> a_min h = Min (set (a_prices h)) \<and> a_max h = Max (set (a_prices h))) \<and>
   (store assetId = Some h0 \<and> 50 \<le> length (a_prices h0) \<longrightarrow>
      (\<exists>h'. updateAssetPriceHistory store assetId newPrice timestamp now assetId = Some h' \<and>
         a_prices h' = tl (a_prices h0) @ [newPrice] \<and>
         a_min h' = Math_min_spread (a_prices h') \<and> a_min h' = Min (set (a_prices h')) \<and>
         a_max h' = Math_max_spread (a_prices h') \<and> a_max h' = Max (set (a_prices h')))) \<and>
   (p_values ph \<noteq> [] \<longrightarrow>
      p_min (updatePortfolioHistory ph v timestamp event) = min (p_min ph) (v * 0.9) \<and>
      p_max (updatePortfolioHistory ph v timestamp event) = max (p_max ph) (v * 1.1))"
proof (intro conjI impI)
  assume "appendAssetPrices Map.empty calls assetId = Some h"
  then have inv: "asset_inv h" by (rule appendAssetPrices_reachable)
  then show "a_prices h \<noteq> []" by (simp add: asset_inv_def)
  from inv show "a_min h = Min (set (a_prices h))" by (simp add: asset_inv_def)
  from inv show "a_max h = Max (set (a_prices h))" by (simp add: asset_inv_def)
next
  assume a: "store assetId = Some h0 \<and> 50 \<le> length (a_prices h0)"
  let ?h = "pushAssetPrice h0 newPrice timestamp"
  from a have eq: "tl (a_prices h0 @ [newPrice]) = tl (a_prices h0) @ [newPrice]"
    by (cases "a_prices h0") auto
  with a have ps: "a_prices ?h = tl (a_prices h0) @ [newPrice]"
    by (simp add: pushAssetPrice_prices)
  then have ne: "a_prices ?h \<noteq> []" by simp
  from a have rs: "a_min ?h = Math_min_spread (a_prices ?h) \<and>
      a_max ?h = Math_max_spread (a_prices ?h)"
    by (simp add: pushAssetPrice_rescan)
  from a have "updateAssetPriceHistory store assetId newPrice timestamp now assetId = Some ?h"
    by (simp add: updateAssetPriceHistory_Some)
  with ps rs Math_min_spread_Min [OF ne] Math_max_spread_Max [OF ne]
  show "\<exists>h'. updateAssetPriceHistory store assetId newPrice timestamp now assetId = Some h' \<and>
         a_prices h' = tl (a_prices h0) @ [newPrice] \<and>
         a_min h' = Math_min_spread (a_prices h') \<and> a_min h' = Min (set (a_prices h')) \<and>
         a_max h' = Math_max_spread (a_prices h') \<and> a_max h' = Max (set (a_prices h'))"
    by simp
next
  assume "p_values ph \<noteq> []"
  then show "p_min (updatePortfolioHistory ph v timestamp event) = min (p_min ph) (v * 0.9)"
    by (rule updatePortfolioHistory_min_later)
next
  assume "p_values ph \<noteq> []"
  then show "p_max (updatePortfolioHistory ph v timestamp event) = max (p_max ph) (v * 1.1)"
    by (rule updatePortfolioHistory_max_later)
qed

theorem asset_minmax_rescanned_portfolio_minmax_running_witness:
  "appendAssetPrices Map.empty [(''gold'', 5, 1, 2), (''gold'', 6, 3, 4)] ''gold'' =
     Some short_asset_history \<and>
   a_min short_asset_history = Min (set (a_prices short_asset_history)) \<and>
   a_max short_asset_history = Max (set (a_prices short_asset_history)) \<and>
   [''gold'' \<mapsto> full_asset_history] ''gold'' = Some full_asset_history \<and>
   50 \<le> length (a_prices full_asset_history) \<and>
   (\<exists>h'. updateAssetPriceHistory [''gold'' \<mapsto> full_asset_history] ''gold'' 7 8 9 ''gold'' = Some h' \<and>
      a_prices h' = replicate 49 1 @ [7] \<and> a_min h' = Min (set (a_prices h')) \<and>
      a_max h' = Max (set (a_prices h'))) \<and>
   p_values full_portfolio_history \<noteq> [] \<and>
   p_min (updatePortfolioHistory full_portfolio_history 7 8 None) = 6.3 \<and>
   p_max (updatePortfolioHistory full_portfolio_history 7 8 None) = 110"
proof -
  note T = asset_minmax_rescanned_portfolio_minmax_running
      [where calls = "[(''gold'', 5, 1, 2), (''gold'', 6, 3, 4)]"
      and assetId = "''gold''" and h = short_asset_history
      and store = "[''gold'' \<mapsto> full_asset_history]" and ?h0.0 = full_asset_history
      and newPrice = 7 and timestamp = 8 and now = 9 and ph = full_portfolio_history
      and v = 7 and event = None]
  have run: "appendAssetPrices Map.empty [(''gold'', 5, 1, 2), (''gold'', 6, 3, 4)] ''gold'' =
      Some short_asset_history"
    by (simp add: appendAssetPrices_def updateAssetPriceHistory_def initAssetPriceHistory_def
        pushAssetPrice_def Let_def short_asset_history_def)
  from T run have mm: "a_min short_asset_history = Min (set (a_prices short_asset_history)) \<and>
      a_max short_asset_history = Max (set (a_prices short_asset_history))"
    by blast
  have st: "[''gold'' \<mapsto> full_asset_history] ''gold'' = Some full_asset_history"
    by simp
  have full: "50 \<le> length (a_prices full_asset_history)"
    by (simp add: full_asset_history_def)
  from T st full have "\<exists>h'. updateAssetPriceHistory [''gold'' \<mapsto> full_asset_history]
      ''gold'' 7 8 9 ''gold'' = Some h' \<and> a_prices h' = tl (a_prices full_asset_history) @ [7] \<and>
      a_min h' = Min (set (a_prices h')) \<and> a_max h' = Max (set (a_prices h'))"
    by blast
  then have ev: "\<exists>h'. updateAssetPriceHistory [''gold'' \<mapsto> full_asset_history]
      ''gold'' 7 8 9 ''gold'' = Some h' \<and> a_prices h' = replicate 49 1 @ [7] \<and>
      a_min h' = Min (set (a_prices h')) \<and> a_max h' = Max (set (a_prices h'))"
    by (simp add: full_asset_history_def)
  have pne: "p_values full_portfolio_history \<noteq> []"
    by (simp add: full_portfolio_history_def)
  with T have "p_min (updatePortfolioHistory full_portfolio_history 7 8 None) =
        min (p_min full_portfolio_history) (7 * 0.9) \<and>
      p_max (updatePortfolioHistory full_portfolio_history 7 8 None) =
        max (p_max full_portfolio_history) (7 * 1.1)"
    by blast
  then have pm: "p_min (updatePortfolioHistory full_portfolio_history 7 8 None) = 6.3 \<and>
      p_max (updatePortfolioHistory full_portfolio_history 7 8 None) = 110"
    by (simp add: full_portfolio_history_def)
  from run mm st full ev pne pm show ?thesis by blast
qed

text \<open>
  The claim as stated fails on the portfolio series: append the value 0 and then 200 times
  the value 100. The first point has been evicted and every stored value is 100, yet the
  stored min is still 0, the padded bound of the evicted point.
\<close>

theorem portfolio_min_stale_counterexample:
  "p_values (appendPortfolioValues portfolioHistory ((0, 0, None) # replicate 200 (100, 1, None))) =
     replicate 200 100 \<and>
   p_min (appendPortfolioValues portfolioHistory ((0, 0, None) # replicate 200 (100, 1, None))) = 0 \<and>
   p_min (appendPortfolioValues portfolioHistory ((0, 0, None) # replicate 200 (100, 1, None))) \<noteq>
     Min (set (p_values
       (appendPortfolioValues portfolioHistory ((0, 0, None) # replicate 200 (100, 1, None)))))"
proof -
  let ?calls = "(0::real, 0::int, None :: (string \<times> string) option) # replicate 200 (100, 1, None)"
  have "p_values (appendPortfolioValues portfolioHistory ?calls) =
      drop (length (p_values portfolioHistory) + length ?calls - 200)
        (p_values portfolioHistory @ map fst ?calls)"
    by (rule appendPortfolioValues_values) (simp add: portfolioHistory_def)
  then have vs: "p_values (appendPortfolioValues portfolioHistory ?calls) = replicate 200 100"
    by (simp add: portfolioHistory_def)
  let ?ph = "updatePortfolioHistory portfolioHistory 0 0 None"
  have ne: "p_values ?ph \<noteq> []" by (rule updatePortfolioHistory_nonempty)
  have m0: "p_min ?ph = 0"
    by (simp add: updatePortfolioHistory_min_first portfolioHistory_def)
  have "p_min (appendPortfolioValues ?ph (replicate 200 (100, 1, None))) = p_min ?ph"
    using ne by (rule appendPortfolioValues_replicate_min) (simp add: m0)
  with m0 have mn: "p_min (appendPortfolioValues portfolioHistory ?calls) = 0"
    by (simp add: appendPortfolioValues_Cons)
  have "Min (set (replicate 200 (100::real))) = 100" by simp
  with vs mn show ?thesis by simp
qed

text \<open>
  Claim C10. The bounds of the portfolio series carry a 10 percent padding and only widen.
  The first append sets min to 0.9 times the value and max to 1.1 times the value. Every
  later append leaves min at the old min or lowers it to 0.9 times the new value, and
  leaves max at the old max or raises it to 1.1 times the new value; this is so also when
  the append evicts the oldest point, so an eviction never changes them. Hence after any
  sequence of appends min is at most 0.9 times, and max at least 1.1 times, every value
  ever appended, the evicted ones included.
\<close>

theorem portfolio_minmax_padded_monotone:
  "(p_values ph0 = [] \<longrightarrow>
      p_min (updatePortfolioHistory ph0 v timestamp event) = v * 0.9 \<and>
      p_max (updatePortfolioHistory ph0 v timestamp event) = v * 1.1) \<and>
   (p_values ph \<noteq> [] \<longrightarrow>
      p_min (updatePortfolioHistory ph v timestamp event) = min (p_min ph) (v * 0.9) \<and>
      p_min (updatePortfolioHistory ph v timestamp event) \<le> p_min ph \<and>
      p_max (updatePortfolioHistory ph v timestamp event) = max (p_max ph) (v * 1.1) \<and>
      p_max ph \<le> p_max (updatePortfolioHistory ph v timestamp event)) \<and>
   (200 \<le> length (p_values ph) \<longrightarrow>
      p_values (updatePortfolioHistory ph v timestamp event) = tl (p_values ph) @ [v] \<and>
      p_min (updatePortfolioHistory ph v timestamp event) = min (p_min ph) (v * 0.9) \<and>
      p_max (updatePortfolioHistory ph v timestamp event) = max (p_max ph) (v * 1.1)) \<and>
   (w \<in> fst ` set calls \<longrightarrow>
      p_min (appendPortfolioValues portfolioHistory calls) \<le> 0.9 * w \<and>
      1.1 * w \<le> p_max (appendPortfolioValues portfolioHistory calls))"
proof (intro conjI impI)
  assume e: "p_values ph0 = []"
  then show "p_min (updatePortfolioHistory ph0 v timestamp event) = v * 0.9"
    by (rule updatePortfolioHistory_min_first)
  from e show "p_max (updatePortfolioHistory ph0 v timestamp event) = v * 1.1"
    by (rule updatePortfolioHistory_max_first)
next
  assume ne: "p_values ph \<noteq> []"
  then show "p_min (updatePortfolioHistory ph v timestamp event) = min (p_min ph) (v * 0.9)"
    by (rule updatePortfolioHistory_min_later)
  from ne show "p_min (updatePortfolioHistory ph v timestamp event) \<le> p_min ph"
    by (simp add: updatePortfolioHistory_min_later)
  from ne show "p_max (updatePortfolioHistory ph v timestamp event) = max (p_max ph) (v * 1.1)"
    by (rule updatePortfolioHistory_max_later)
  from ne show "p_max ph \<le> p_max (updatePortfolioHistory ph v timestamp event)"
    by (simp add: updatePortfolioHistory_max_later)
next
  assume a: "200 \<le> length (p_values ph)"
  then have ne: "p_values ph \<noteq> []" by auto
  from a have "tl (p_values ph @ [v]) = tl (p_values ph) @ [v]"
    by (cases "p_values ph") auto
  with a show "p_values (updatePortfolioHistory ph v timestamp event) = tl (p_values ph) @ [v]"
    by (simp add: updatePortfolioHistory_values)
  from ne show "p_min (updatePortfolioHistory ph v timestamp event) = min (p_min ph) (v * 0.9)"
    by (rule updatePortfolioHistory_min_later)
  from ne show "p_max (updatePortfolioHistory ph v timestamp event) = max (p_max ph) (v * 1.1)"
    by (rule updatePortfolioHistory_max_later)
next
  assume w: "w \<in> fst ` set calls"
  have e: "p_values portfolioHistory = []" by (simp add: portfolioHistory_def)
  from appendPortfolioValues_bounds [OF e w]
  show "p_min (appendPortfolioValues portfolioHistory calls) \<le> 0.9 * w"
    by (simp add: mult.commute)
  from appendPortfolioValues_bounds [OF e w]
  show "1.1 * w \<le> p_max (appendPortfolioValues portfolioHistory calls)"
    by (simp add: mult.commute)
qed

theorem portfolio_minmax_padded_monotone_witness:
  "p_values portfolioHistory = [] \<and>
   p_min (updatePortfolioHistory portfolioHistory 100 0 None) = 90 \<and>
   p_max (updatePortfolioHistory portfolioHistory 100 0 None) = 110 \<and>
   p_values full_portfolio_history \<noteq> [] \<and> 200 \<le> length (p_values full_portfolio_history) \<and>
   p_values (updatePortfolioHistory full_portfolio_history 50 0 None) = replicate 199 100 @ [50] \<and>
   p_min (updatePortfolioHistory full_portfolio_history 50 0 None) = 45 \<and>
   p_max (updatePortfolioHistory full_portfolio_history 50 0 None) = 110 \<and>
   (100::real) \<in> fst ` set [(100::real, 0::int, None :: (string \<times> string) option), (50, 1, None)] \<and>
   p_min (appendPortfolioValues portfolioHistory [(100, 0, None), (50, 1, None)]) \<le> 90 \<and>
   110 \<le> p_max (appendPortfolioValues portfolioHistory [(100, 0, None), (50, 1, None)])"
proof -
  note T = portfolio_minmax_padded_monotone [where ?ph0.0 = portfolioHistory and v = 100
      and timestamp = 0 and event = None and ph = full_portfolio_history
      and w = 100 and calls = "[(100, 0, None), (50, 1, None)]"]
  note U = portfolio_minmax_padded_monotone [where ?ph0.0 = portfolioHistory and v = 50
      and timestamp = 0 and event = None and ph = full_portfolio_history
      and w = 100 and calls = "[(100, 0, None), (50, 1, None)]"]
  have e: "p_values portfolioHistory = []" by (simp add: portfolioHistory_def)
  with T have first: "p_min (updatePortfolioHistory portfolioHistory 100 0 None) = 100 * 0.9 \<and>
      p_max (updatePortfolioHistory portfolioHistory 100 0 None) = 100 * 1.1"
    by blast
  have full: "p_values full_portfolio_history \<noteq> [] \<and> 200 \<le> length (p_values full_portfolio_history)"
    by (simp add: full_portfolio_history_def)
  with U have "p_values (updatePortfolioHistory full_portfolio_history 50 0 None) =
        tl (p_values full_portfolio_history) @ [50] \<and>
      p_min (updatePortfolioHistory full_portfolio_history 50 0 None) =
        min (p_min full_portfolio_history) (50 * 0.9) \<and>
      p_max (updatePortfolioHistory full_portfolio_history 50 0 None) =
        max (p_max full_portfolio_history) (50 * 1.1)"
    by blast
  then have later: "p_values (updatePortfolioHistory full_portfolio_history 50 0 None) =
        replicate 199 100 @ [50] \<and>
      p_min (updatePortfolioHistory full_portfolio_history 50 0 None) = 45 \<and>
      p_max (updatePortfolioHistory full_portfolio_history 50 0 None) = 110"
    by (simp add: full_portfolio_history_def)
  have mem: "(100::real) \<in> fst ` set [(100::real, 0::int, None :: (string \<times> string) option), (50, 1, None)]"
    by simp
  with T have "p_min (appendPortfolioValues portfolioHistory [(100, 0, None), (50, 1, None)]) \<le> 0.9 * 100 \<and>
      1.1 * 100 \<le> p_max (appendPortfolioValues portfolioHistory [(100, 0, None), (50, 1, None)])"
    by blast
  then have all: "p_min (appendPortfolioValues portfolioHistory [(100, 0, None), (50, 1, None)]) \<le> 90 \<and>
      110 \<le> p_max (appendPortfolioValues portfolioHistory [(100, 0, None), (50, 1, None)])"
    by simp
  from e first full later mem all show ?thesis by simp
qed

section \<open>Properties of the trend series\<close>

declare sparkline_loop.simps [simp del] priceHistory_loop.simps [simp del]

lemma sparkline_loop_closed:
  "history \<noteq> [] \<Longrightarrow>
     sparkline_loop basePrice prevPrice vol len rnd i history =
       history @ map (sparklinePoint basePrice prevPrice vol len rnd (cdp_timestamp (hd history)))
                     [i..len - 2]"
proof (induction basePrice prevPrice vol len rnd i history rule: sparkline_loop.induct)
  case (1 basePrice prevPrice vol len rnd i history)
  show ?case
  proof (cases "i < len - 1")
    case True
    then have u: "[i..len - 2] = i # [i + 1..len - 2]" by (simp add: upto_rec1)
    from True "1.IH" "1.prems" show ?thesis
      by (subst sparkline_loop.simps) (simp add: u)
  next
    case False
    then show ?thesis by (subst sparkline_loop.simps) simp
  qed
qed

lemma priceHistory_loop_closed:
  "priceHistory_loop basePrice prevPrice vol points rnd i history =
     history @ map (priceHistoryPoint basePrice prevPrice vol points rnd) [i..points - 2]"
proof (induction basePrice prevPrice vol points rnd i history rule: priceHistory_loop.induct)
  case (1 basePrice prevPrice vol points rnd i history)
  show ?case
  proof (cases "i < points - 1")
    case True
    then have u: "[i..points - 2] = i # [i + 1..points - 2]" by (simp add: upto_rec1)
    from True "1.IH" show ?thesis
      by (subst priceHistory_loop.simps) (simp add: u)
  next
    case False
    then show ?thesis by (subst priceHistory_loop.simps) simp
  qed
qed

lemma generateEnhancedSparklineData_closed:
  "generateEnhancedSparklineData asset len rnd now0 now1 =
     \<lparr>cdp_value = previousPrice asset, cdp_timestamp = now0 - len * 500\<rparr> #
     map (sparklinePoint (price asset) (previousPrice asset) (volatility asset) len rnd
            (now0 - len * 500)) [1..len - 2] @
     [\<lparr>cdp_value = price asset, cdp_timestamp = now1\<rparr>]"
  by (simp add: generateEnhancedSparklineData_def Let_def sparkline_loop_closed)

lemma generatePriceHistory_closed:
  "generatePriceHistory asset rnd =
     \<lparr>hp_value = previousPrice asset\<rparr> #
     map (priceHistoryPoint (price asset) (previousPrice asset) (volatility asset) 20 rnd)
       [1..18] @
     [\<lparr>hp_value = price asset\<rparr>]"
  by (simp add: generatePriceHistory_def Let_def priceHistory_loop_closed)

lemma length_upto_1: "2 \<le> n \<Longrightarrow> length [1..n - 2] = nat (n - 2)"
  by simp

lemma nth_series:
  assumes "1 \<le> i" "i \<le> m"
  shows "(x # map f [1..m] @ [y]) ! nat i = f i"
proof -
  from assms have n: "nat i = Suc (nat (i - 1))" by simp
  from assms have l: "nat (i - 1) < length (map f [1..m])" by simp
  from assms have "map f [1..m] ! nat (i - 1) = f i" by simp
  with l show ?thesis unfolding n by (simp add: nth_append)
qed

lemma sparkline_sample:
  assumes "1 \<le> i" "i < n - 1"
  shows "generateEnhancedSparklineData asset n rnd now0 now1 ! nat i =
           sparklinePoint (price asset) (previousPrice asset) (volatility asset) n rnd
             (now0 - n * 500) i"
proof -
  from assms have "i \<le> n - 2" by simp
  with assms(1) show ?thesis
    unfolding generateEnhancedSparklineData_closed by (rule nth_series)
qed

lemma priceHistory_sample:
  assumes "1 \<le> i" "i < 19"
  shows "generatePriceHistory asset rnd ! nat i =
           priceHistoryPoint (price asset) (previousPrice asset) (volatility asset) 20 rnd i"
proof -
  from assms have "i \<le> 18" by simp
  with assms(1) show ?thesis
    unfolding generatePriceHistory_closed by (rule nth_series)
qed

lemma sparklinePoint_value:
  fixes pos :: real
  assumes "pos = real_of_int i / real_of_int (n - 1)"
  shows "cdp_value (sparklinePoint basePrice prevPrice vol n rnd t0 i) =
           prevPrice * (1 - pos) + basePrice * pos +
           (rnd (nat (i - 1)) - 1 / 2) * vol * basePrice * 0.6 *
             (if pos \<le> 1 / 2 then 1 else 2 * (1 - pos))"
proof -
  have "cdp_value (sparklinePoint basePrice prevPrice vol n rnd t0 i) =
      prevPrice * (1 - pos) + basePrice * pos +
      (rnd (nat (i - 1)) - 0.5) * vol * basePrice * 0.6 *
        (1 - (if pos > 0.5 then (pos - 0.5) * 2 else 0))"
    unfolding assms sparklinePoint_def Let_def by (simp only: ChartDataPoint.select_convs)
  also have "1 - (if pos > 0.5 then (pos - 0.5) * 2 else 0) =
      (if pos \<le> 1 / 2 then 1 else 2 * (1 - pos))"
    by (simp add: algebra_simps)
  finally show ?thesis by simp
qed

lemma priceHistoryPoint_value:
  fixes pos :: real
  assumes "pos = real_of_int i / real_of_int (n - 1)"
  shows "hp_value (priceHistoryPoint basePrice prevPrice vol n rnd i) =
           prevPrice * (1 - pos) + basePrice * pos +
           (rnd (nat (i - 1)) - 1 / 2) * vol * basePrice * 0.3 *
             (if pos \<le> 1 / 2 then 1 else 2 * (1 - pos))"
proof -
  have "hp_value (priceHistoryPoint basePrice prevPrice vol n rnd i) =
      prevPrice * (1 - pos) + basePrice * pos +
      (rnd (nat (i - 1)) - 0.5) * vol * basePrice * 0.3 *
        (1 - (if pos > 0.5 then (pos - 0.5) * 2 else 0))"
    unfolding assms priceHistoryPoint_def Let_def by (simp only: HistoryPoint.select_convs)
  also have "1 - (if pos > 0.5 then (pos - 0.5) * 2 else 0) =
      (if pos \<le> 1 / 2 then 1 else 2 * (1 - pos))"
    by (simp add: algebra_simps)
  finally show ?thesis by simp
qed

text \<open>
  Claim C7. A series generated for a requested length \<open>n \<ge> 2\<close> has \<open>n\<close> points: the
  first has exactly the previous price as its value, the last exactly the current price,
  and \<open>n - 2\<close> points lie between them. This holds for the sparkline generator at every
  such \<open>n\<close>, and for the chart-history generator of the asset list, whose length is the
  constant 20 (18 points in between).
\<close>

theorem trend_series_endpoints:
  "(2 \<le> n \<longrightarrow>
      length (generateEnhancedSparklineData asset n rnd now0 now1) = nat n \<and>
      cdp_value (generateEnhancedSparklineData asset n rnd now0 now1 ! 0) = previousPrice asset \<and>
      cdp_value (last (generateEnhancedSparklineData asset n rnd now0 now1)) = price asset \<and>
      length (butlast (tl (generateEnhancedSparklineData asset n rnd now0 now1))) = nat (n - 2)) \<and>
   length (generatePriceHistory asset rnd') = 20 \<and>
   hp_value (generatePriceHistory asset rnd' ! 0) = previousPrice asset \<and>
   hp_value (last (generatePriceHistory asset rnd')) = price asset \<and>
   length (butlast (tl (generatePriceHistory asset rnd'))) = 18"
proof (intro conjI impI)
  assume n: "2 \<le> n"
  then show "length (generateEnhancedSparklineData asset n rnd now0 now1) = nat n"
    by (simp add: generateEnhancedSparklineData_closed)
  from n show "length (butlast (tl (generateEnhancedSparklineData asset n rnd now0 now1))) = nat (n - 2)"
    by (simp add: generateEnhancedSparklineData_closed)
next
  show "cdp_value (generateEnhancedSparklineData asset n rnd now0 now1 ! 0) = previousPrice asset"
    by (simp add: generateEnhancedSparklineData_closed)
  show "cdp_value (last (generateEnhancedSparklineData asset n rnd now0 now1)) = price asset"
    by (simp add: generateEnhancedSparklineData_closed)
  show "length (generatePriceHistory asset rnd') = 20"
    by (simp add: generatePriceHistory_closed)
  show "hp_value (generatePriceHistory asset rnd' ! 0) = previousPrice asset"
    by (simp add: generatePriceHistory_closed)
  show "hp_value (last (generatePriceHistory asset rnd')) = price asset"
    by (simp add: generatePriceHistory_closed)
  show "length (butlast (tl (generatePriceHistory asset rnd'))) = 18"
    by (simp add: generatePriceHistory_closed)
qed

theorem trend_series_endpoints_witness:
  "(2::int) \<le> 20 \<and>
   length (generateEnhancedSparklineData example_asset 20 (rnd_const 0.75) 10000 10000) = 20 \<and>
   cdp_value (generateEnhancedSparklineData example_asset 20 (rnd_const 0.75) 10000 10000 ! 0) = 100 \<and>
   cdp_value (last (generateEnhancedSparklineData example_asset 20 (rnd_const 0.75) 10000 10000)) = 120 \<and>
   length (butlast (tl (generateEnhancedSparklineData example_asset 20 (rnd_const 0.75) 10000 10000))) = 18 \<and>
   hp_value (generatePriceHistory example_asset (rnd_const 0.75) ! 0) = 100 \<and>
   hp_value (last (generatePriceHistory example_asset (rnd_const 0.75))) = 120"
  using trend_series_endpoints [where n = 20 and asset = example_asset and rnd = "rnd_const 0.75"
      and ?now0.0 = 10000 and ?now1.0 = 10000 and rnd' = "rnd_const 0.75"]
  by (simp add: example_asset_def)

text \<open>
  Claim C8, as amended. Write \<open>position = i / (n - 1)\<close> for the intermediate sample \<open>i\<close>
  (\<open>1 \<le> i < n - 1\<close>). A sample at or before the midpoint (\<open>position \<le> 1/2\<close>) is the
  linear interpolation between the previous and the current price plus the whole random
  deviation; a sample after the midpoint is the interpolation plus the deviation weighted
  by \<open>2 (1 - position)\<close>, a weight that falls from one sample to the next. The deviation
  is \<open>(r - 1/2)\<close> times volatility times current price times 0.6 in the sparkline and
  times 0.3 in the chart history of the asset list (where \<open>n = 20\<close>), \<open>r\<close> being the
  random draw of the sample.
\<close>

theorem trend_series_samples:
  "(1 \<le> i \<and> i < n - 1 \<and> real_of_int i / real_of_int (n - 1) \<le> 1 / 2 \<longrightarrow>
      cdp_value (generateEnhancedSparklineData asset n rnd now0 now1 ! nat i) =
        previousPrice asset * (1 - real_of_int i / real_of_int (n - 1)) +
        price asset * (real_of_int i / real_of_int (n - 1)) +
        (rnd (nat (i - 1)) - 1 / 2) * volatility asset * price asset * 0.6) \<and>
   (1 \<le> i \<and> i < n - 1 \<and> 1 / 2 < real_of_int i / real_of_int (n - 1) \<longrightarrow>
      cdp_value (generateEnhancedSparklineData asset n rnd now0 now1 ! nat i) =
        previousPrice asset * (1 - real_of_int i / real_of_int (n - 1)) +
        price asset * (real_of_int i / real_of_int (n - 1)) +
        (rnd (nat (i - 1)) - 1 / 2) * volatility asset * price asset * 0.6 *
          (2 * (1 - real_of_int i / real_of_int (n - 1)))) \<and>
   (1 \<le> j \<and> j < 19 \<and> real_of_int j / 19 \<le> 1 / 2 \<longrightarrow>
      hp_value (generatePriceHistory asset rnd' ! nat j) =
        previousPrice asset * (1 - real_of_int j / 19) + price asset * (real_of_int j / 19) +
        (rnd' (nat (j - 1)) - 1 / 2) * volatility asset * price asset * 0.3) \<and>
   (1 \<le> j \<and> j < 19 \<and> 1 / 2 < real_of_int j / 19 \<longrightarrow>
      hp_value (generatePriceHistory asset rnd' ! nat j) =
        previousPrice asset * (1 - real_of_int j / 19) + price asset * (real_of_int j / 19) +
        (rnd' (nat (j - 1)) - 1 / 2) * volatility asset * price asset * 0.3 *
          (2 * (1 - real_of_int j / 19))) \<and>
   (1 \<le> i \<and> i + 1 < n - 1 \<longrightarrow>
      2 * (1 - real_of_int (i + 1) / real_of_int (n - 1)) <
      2 * (1 - real_of_int i / real_of_int (n - 1)))"
proof (intro conjI impI)
  assume a: "1 \<le> i \<and> i < n - 1 \<and> real_of_int i / real_of_int (n - 1) \<le> 1 / 2"
  define pos where "pos = real_of_int i / real_of_int (n - 1)"
  from a have le: "pos \<le> 1 / 2" unfolding pos_def by blast
  from a have s: "generateEnhancedSparklineData asset n rnd now0 now1 ! nat i =
      sparklinePoint (price asset) (previousPrice asset) (volatility asset) n rnd
        (now0 - n * 500) i"
    by (simp add: sparkline_sample)
  from le sparklinePoint_value [OF pos_def]
  have "cdp_value (sparklinePoint (price asset) (previousPrice asset) (volatility asset) n rnd
        (now0 - n * 500) i) =
      previousPrice asset * (1 - pos) + price asset * pos +
      (rnd (nat (i - 1)) - 1 / 2) * volatility asset * price asset * 0.6"
    by simp
  then show "cdp_value (generateEnhancedSparklineData asset n rnd now0 now1 ! nat i) =
        previousPrice asset * (1 - real_of_int i / real_of_int (n - 1)) +
        price asset * (real_of_int i / real_of_int (n - 1)) +
        (rnd (nat (i - 1)) - 1 / 2) * volatility asset * price asset * 0.6"
    unfolding s pos_def .
next
  assume a: "1 \<le> i \<and> i < n - 1 \<and> 1 / 2 < real_of_int i / real_of_int (n - 1)"
  define pos where "pos = real_of_int i / real_of_int (n - 1)"
  from a have gt: "\<not> pos \<le> 1 / 2" unfolding pos_def by auto
  from a have s: "generateEnhancedSparklineData asset n rnd now0 now1 ! nat i =
      sparklinePoint (price asset) (previousPrice asset) (volatility asset) n rnd
        (now0 - n * 500) i"
    by (simp add: sparkline_sample)
  from gt sparklinePoint_value [OF pos_def]
  have "cdp_value (sparklinePoint (price asset) (previousPrice asset) (volatility asset) n rnd
        (now0 - n * 500) i) =
      previousPrice asset * (1 - pos) + price asset * pos +
      (rnd (nat (i - 1)) - 1 / 2) * volatility asset * price asset * 0.6 * (2 * (1 - pos))"
    by simp
  then show "cdp_value (generateEnhancedSparklineData asset n rnd now0 now1 ! nat i) =
        previousPrice asset * (1 - real_of_int i / real_of_int (n - 1)) +
        price asset * (real_of_int i / real_of_int (n - 1)) +
        (rnd (nat (i - 1)) - 1 / 2) * volatility asset * price asset * 0.6 *
          (2 * (1 - real_of_int i / real_of_int (n - 1)))"
    unfolding s pos_def .
next
  assume a: "1 \<le> j \<and> j < 19 \<and> real_of_int j / 19 \<le> 1 / 2"
  define pos where "pos = real_of_int j / real_of_int (20 - 1)"
  have p: "pos = real_of_int j / 19" unfolding pos_def by simp
  from a have le: "pos \<le> 1 / 2" unfolding p by blast
  from a have s: "generatePriceHistory asset rnd' ! nat j =
      priceHistoryPoint (price asset) (previousPrice asset) (volatility asset) 20 rnd' j"
    by (simp add: priceHistory_sample)
  from le priceHistoryPoint_value [OF pos_def]
  have "hp_value (priceHistoryPoint (price asset) (previousPrice asset) (volatility asset) 20 rnd' j) =
      previousPrice asset * (1 - pos) + price asset * pos +
      (rnd' (nat (j - 1)) - 1 / 2) * volatility asset * price asset * 0.3"
    by simp
  then show "hp_value (generatePriceHistory asset rnd' ! nat j) =
        previousPrice asset * (1 - real_of_int j / 19) + price asset * (real_of_int j / 19) +
        (rnd' (nat (j - 1)) - 1 / 2) * volatility asset * price asset * 0.3"
    unfolding s p .
next
  assume a: "1 \<le> j \<and> j < 19 \<and> 1 / 2 < real_of_int j / 19"
  define pos where "pos = real_of_int j / real_of_int (20 - 1)"
  have p: "pos = real_of_int j / 19" unfolding pos_def by simp
  from a have gt: "\<not> pos \<le> 1 / 2" unfolding p by auto
  from a have s: "generatePriceHistory asset rnd' ! nat j =
      priceHistoryPoint (price asset) (previousPrice asset) (volatility asset) 20 rnd' j"
    by (simp add: priceHistory_sample)
  from gt priceHistoryPoint_value [OF pos_def]
  have "hp_value (priceHistoryPoint (price asset) (previousPrice asset) (volatility asset) 20 rnd' j) =
      previousPrice asset * (1 - pos) + price asset * pos +
      (rnd' (nat (j - 1)) - 1 / 2) * volatility asset * price asset * 0.3 * (2 * (1 - pos))"
    by simp
  then show "hp_value (generatePriceHistory asset rnd' ! nat j) =
        previousPrice asset * (1 - real_of_int j / 19) + price asset * (real_of_int j / 19) +
        (rnd' (nat (j - 1)) - 1 / 2) * volatility asset * price asset * 0.3 *
          (2 * (1 - real_of_int j / 19))"
    unfolding s p .
next
  assume a: "1 \<le> i \<and> i + 1 < n - 1"
  define x where "x = real_of_int i / real_of_int (n - 1)"
  define y where "y = real_of_int (i + 1) / real_of_int (n - 1)"
  from a have "0 < real_of_int (n - 1)" by simp
  then have "x < y" unfolding x_def y_def by (simp add: divide_strict_right_mono)
  then have "2 * (1 - y) < 2 * (1 - x)" by simp
  then show "2 * (1 - real_of_int (i + 1) / real_of_int (n - 1)) <
      2 * (1 - real_of_int i / real_of_int (n - 1))"
    unfolding x_def y_def .
qed

theorem trend_series_samples_witness:
  "(1::int) \<le> 3 \<and> (3::int) < 20 - 1 \<and> real_of_int 3 / real_of_int (20 - 1) \<le> 1 / 2 \<and>
   cdp_value (generateEnhancedSparklineData example_asset 20 (rnd_const 0.75) 10000 10000 ! nat 3) =
     100 * (1 - 3 / 19) + 120 * (3 / 19) + (0.75 - 1 / 2) * 0.1 * 120 * 0.6 \<and>
   (1::int) \<le> 15 \<and> (15::int) < 20 - 1 \<and> 1 / 2 < real_of_int 15 / real_of_int (20 - 1) \<and>
   cdp_value (generateEnhancedSparklineData example_asset 20 (rnd_const 0.75) 10000 10000 ! nat 15) =
     100 * (1 - 15 / 19) + 120 * (15 / 19) + (0.75 - 1 / 2) * 0.1 * 120 * 0.6 * (2 * (1 - 15 / 19)) \<and>
   hp_value (generatePriceHistory example_asset (rnd_const 0.75) ! nat 3) =
     100 * (1 - 3 / 19) + 120 * (3 / 19) + (0.75 - 1 / 2) * 0.1 * 120 * 0.3 \<and>
   hp_value (generatePriceHistory example_asset (rnd_const 0.75) ! nat 15) =
     100 * (1 - 15 / 19) + 120 * (15 / 19) + (0.75 - 1 / 2) * 0.1 * 120 * 0.3 * (2 * (1 - 15 / 19))"
  using trend_series_samples [where i = 3 and n = 20 and asset = example_asset
      and rnd = "rnd_const 0.75" and ?now0.0 = 10000 and ?now1.0 = 10000 and j = 3
      and rnd' = "rnd_const 0.75"]
    trend_series_samples [where i = 15 and n = 20 and asset = example_asset
      and rnd = "rnd_const 0.75" and ?now0.0 = 10000 and ?now1.0 = 10000 and j = 15
      and rnd' = "rnd_const 0.75"]
  by (simp add: example_asset_def rnd_const_def)

text \<open>
  The claim as stated fails before the midpoint: with every random draw 0, sample 1 of 20
  (position 1/19) lies 3.6 below the linear interpolation in the sparkline, and 1.8 below
  it in the chart history.
\<close>

theorem premidpoint_sample_deviates_counterexample:
  "cdp_value (generateEnhancedSparklineData example_asset 20 (rnd_const 0) 10000 10000 ! 1) =
     100 * (1 - 1 / 19) + 120 * (1 / 19) - 3.6 \<and>
   cdp_value (generateEnhancedSparklineData example_asset 20 (rnd_const 0) 10000 10000 ! 1) \<noteq>
     100 * (1 - 1 / 19) + 120 * (1 / 19) \<and>
   hp_value (generatePriceHistory example_asset (rnd_const 0) ! 1) =
     100 * (1 - 1 / 19) + 120 * (1 / 19) - 1.8 \<and>
   hp_value (generatePriceHistory example_asset (rnd_const 0) ! 1) \<noteq>
     100 * (1 - 1 / 19) + 120 * (1 / 19)"
proof -
  have s: "generateEnhancedSparklineData example_asset 20 (rnd_const 0) 10000 10000 ! nat 1 =
      sparklinePoint (price example_asset) (previousPrice example_asset)
        (volatility example_asset) 20 (rnd_const 0) (10000 - 20 * 500) 1"
    by (rule sparkline_sample) simp_all
  have h: "generatePriceHistory example_asset (rnd_const 0) ! nat 1 =
      priceHistoryPoint (price example_asset) (previousPrice example_asset)
        (volatility example_asset) 20 (rnd_const 0) 1"
    by (rule priceHistory_sample) simp_all
  have sv: "cdp_value (generateEnhancedSparklineData example_asset 20 (rnd_const 0) 10000 10000 ! 1) =
      100 * (1 - 1 / 19) + 120 * (1 / 19) - 3.6"
    using s by (simp add: sparklinePoint_def example_asset_def rnd_const_def)
  have hv: "hp_value (generatePriceHistory example_asset (rnd_const 0) ! 1) =
      100 * (1 - 1 / 19) + 120 * (1 / 19) - 1.8"
    using h by (simp add: priceHistoryPoint_def example_asset_def rnd_const_def)
  from sv hv show ?thesis by simp
qed

section \<open>Properties of the game session\<close>

lemma fold_netWorth:
  "fold (\<lambda>(assetId, holding) netWorth.
             (case find (\<lambda>a. asset_id a = assetId) as of
                None \<Rightarrow> netWorth
              | Some asset \<Rightarrow>
                  (let netWorth1 = netWorth + quantity holding * price asset
                   in if shortQuantity holding > 0 then
                        (let shortProfit =
                               shortQuantity holding * (averageShortPrice holding - price asset)
                         in netWorth1 + shortProfit)
                      else netWorth1)))
        hs acc =
   acc +
   sum_list (map (\<lambda>(assetId, holding).
        (case find (\<lambda>a. asset_id a = assetId) as of
           None \<Rightarrow> 0
         | Some asset \<Rightarrow> quantity holding * price asset)) hs) +
   sum_list (map (\<lambda>(assetId, holding).
        (case find (\<lambda>a. asset_id a = assetId) as of
           None \<Rightarrow> 0
         | Some asset \<Rightarrow>
             if shortQuantity holding > 0
             then shortQuantity holding * (averageShortPrice holding - price asset)
             else 0)) hs)"
proof (induction hs arbitrary: acc)
  case Nil
  show ?case by simp
next
  case (Cons x hs)
  obtain assetId holding where x: "x = (assetId, holding)" by (cases x) auto
  show ?case
    by (cases "find (\<lambda>a. asset_id a = assetId) as") (simp_all add: x Cons.IH Let_def)
qed

lemma executeTrade_rejected:
  "isGameOver state \<or> find (\<lambda>a. asset_id a = assetId) (assets state) = None \<Longrightarrow>
     executeTrade state assetId action amount now = (None, [])"
  by (auto simp: executeTrade_def)

lemma timersSet_append: "timersSet (xs @ ys) = timersSet xs @ timersSet ys"
  by (induction xs rule: timersSet.induct) simp_all

lemma newsAdded_append: "newsAdded (xs @ ys) = newsAdded xs @ newsAdded ys"
  by (induction xs rule: newsAdded.induct) simp_all

lemma timersSet_concat: "timersSet (concat xss) = concat (map timersSet xss)"
  by (induction xss) (simp_all add: timersSet_append)

lemma newsAdded_concat: "newsAdded (concat xss) = concat (map newsAdded xss)"
  by (induction xss) (simp_all add: newsAdded_append)

lemma timersSet_chart_calls:
  "timersSet (map (\<lambda>asset. CallUpdateAssetPriceHistory (f asset) (g asset) t) xs) = []"
  by (induction xs) simp_all

lemma newsAdded_chart_calls:
  "newsAdded (map (\<lambda>asset. CallUpdateAssetPriceHistory (f asset) (g asset) t) xs) = []"
  by (induction xs) simp_all

text \<open>The timers and the news of one schedule entry inside the 100 ms window.\<close>

lemma newsEvent_fired:
  assumes "\<bar>(60 - timeRemaining state) * 1000 - timing\<bar> < 100"
  shows "\<exists>n. newsAdded (newsEvent env state index timing) = [n] \<and>
           timersSet (newsEvent env state index timing) =
             (if shouldBeChainedEvent env index (eventDensity state)
              then [(FollowUpNews state (uuidv4 env index) n,
                      \<lfloor>Math_random env index * 10000\<rfloor> + 5000)]
              else []) @ [(ExpireNews n, 15000)] \<and>
           (shouldBeChainedEvent env index (eventDensity state) \<longrightarrow>
              chainId n = Some (uuidv4 env index) \<and> chainSequence n = Some 1)"
  using assms by (simp add: newsEvent_def Let_def timersSet_append newsAdded_append)

lemma newsEvent_not_fired:
  assumes "\<not> \<bar>(60 - timeRemaining state) * 1000 - timing\<bar> < 100"
  shows "newsEvent env state index timing = []"
  using assms by (simp add: newsEvent_def Let_def)

lemma newsEvent_timer:
  assumes "(cb, d) \<in> set (timersSet (newsEvent env state index timing))"
  shows "\<exists>n. n \<in> set (newsAdded (newsEvent env state index timing)) \<and>
           (ExpireNews n, 15000) \<in> set (timersSet (newsEvent env state index timing)) \<and>
           (cb = ExpireNews n \<and> d = 15000 \<or>
            (\<exists>cid. cb = FollowUpNews state cid n \<and> chainId n = Some cid \<and>
               chainSequence n = Some 1))"
proof (cases "\<bar>(60 - timeRemaining state) * 1000 - timing\<bar> < 100")
  case True
  from newsEvent_fired [OF True, of env index] assms show ?thesis
    by (auto split: if_splits)
next
  case False
  with assms show ?thesis by (simp add: newsEvent_not_fired)
qed

lemma newsEvent_news:
  assumes "n \<in> set (newsAdded (newsEvent env state index timing))"
  shows "(ExpireNews n, 15000) \<in> set (timersSet (newsEvent env state index timing))"
proof (cases "\<bar>(60 - timeRemaining state) * 1000 - timing\<bar> < 100")
  case True
  from newsEvent_fired [OF True, of env index] assms show ?thesis
    by (auto split: if_splits)
next
  case False
  with assms show ?thesis by (simp add: newsEvent_not_fired)
qed

lemma checkScheduledNews_timer:
  "(cb, d) \<in> set (timersSet (checkScheduledNews env state eventSchedule)) \<longleftrightarrow>
     (\<exists>index timing. (index, timing) \<in> set (enumerate 0 eventSchedule) \<and>
        (cb, d) \<in> set (timersSet (newsEvent env state index timing)))"
  unfolding checkScheduledNews_def timersSet_concat by force

lemma checkScheduledNews_news:
  "n \<in> set (newsAdded (checkScheduledNews env state eventSchedule)) \<longleftrightarrow>
     (\<exists>index timing. (index, timing) \<in> set (enumerate 0 eventSchedule) \<and>
        n \<in> set (newsAdded (newsEvent env state index timing)))"
  unfolding checkScheduledNews_def newsAdded_concat by force

lemma timersSet_updateTimer:
  "timersSet (updateTimer env state lastTickTime lastPriceUpdate lastNetWorthUpdate
       eventSchedule timestamp now) =
     (if \<not> isGameOver state \<and> \<not> isPaused state \<and> lastTickTime \<noteq> None
      then timersSet (checkScheduledNews env state eventSchedule) else [])"
  by (simp add: updateTimer_def Let_def timersSet_append timersSet_chart_calls
      split: option.splits)

lemma newsAdded_updateTimer:
  "newsAdded (updateTimer env state lastTickTime lastPriceUpdate lastNetWorthUpdate
       eventSchedule timestamp now) =
     (if \<not> isGameOver state \<and> \<not> isPaused state \<and> lastTickTime \<noteq> None
      then newsAdded (checkScheduledNews env state eventSchedule) else [])"
  by (simp add: updateTimer_def Let_def newsAdded_append newsAdded_chart_calls
      split: option.splits)

text \<open>Every news item a frame adds has its expiry timer, set by the same frame.\<close>

lemma updateTimer_news_expiry:
  assumes "n \<in> set (newsAdded (updateTimer env state lastTickTime lastPriceUpdate
      lastNetWorthUpdate eventSchedule timestamp now))"
  shows "(ExpireNews n, 15000) \<in> set (timersSet (updateTimer env state lastTickTime
      lastPriceUpdate lastNetWorthUpdate eventSchedule timestamp now))"
proof -
  from assms have run: "\<not> isGameOver state \<and> \<not> isPaused state \<and> lastTickTime \<noteq> None"
    by (auto simp: newsAdded_updateTimer split: if_splits)
  with assms obtain index timing where
    e: "(index, timing) \<in> set (enumerate 0 eventSchedule)" and
    n: "n \<in> set (newsAdded (newsEvent env state index timing))"
    by (auto simp: newsAdded_updateTimer checkScheduledNews_news)
  from n have "(ExpireNews n, 15000) \<in> set (timersSet (newsEvent env state index timing))"
    by (rule newsEvent_news)
  with e run show ?thesis
    by (auto simp: timersSet_updateTimer checkScheduledNews_timer)
qed

text \<open>
  A timer set by a frame was set while the captured state was neither paused nor over, for a
  news item the frame added.
\<close>

lemma updateTimer_timer:
  assumes "(cb, d) \<in> set (timersSet (updateTimer env state lastTickTime lastPriceUpdate
      lastNetWorthUpdate eventSchedule timestamp now))"
  shows "\<not> isGameOver state \<and> \<not> isPaused state \<and>
         (\<exists>n. n \<in> set (newsAdded (updateTimer env state lastTickTime lastPriceUpdate
                  lastNetWorthUpdate eventSchedule timestamp now)) \<and>
            (cb = ExpireNews n \<and> d = 15000 \<or>
             (\<exists>cid. cb = FollowUpNews state cid n \<and> chainId n = Some cid \<and>
                chainSequence n = Some 1)))"
proof -
  from assms have run: "\<not> isGameOver state \<and> \<not> isPaused state \<and> lastTickTime \<noteq> None"
    by (auto simp: timersSet_updateTimer split: if_splits)
  with assms obtain index timing where
    e: "(index, timing) \<in> set (enumerate 0 eventSchedule)" and
    t: "(cb, d) \<in> set (timersSet (newsEvent env state index timing))"
    by (auto simp: timersSet_updateTimer checkScheduledNews_timer)
  from newsEvent_timer [OF t] obtain n where
    n: "n \<in> set (newsAdded (newsEvent env state index timing))" and
    c: "cb = ExpireNews n \<and> d = 15000 \<or>
        (\<exists>cid. cb = FollowUpNews state cid n \<and> chainId n = Some cid \<and> chainSequence n = Some 1)"
    by blast
  from n e run have "n \<in> set (newsAdded (updateTimer env state lastTickTime lastPriceUpdate
      lastNetWorthUpdate eventSchedule timestamp now))"
    by (auto simp: newsAdded_updateTimer checkScheduledNews_news)
  with run c show ?thesis by blast
qed

lemma runCallback_followUp:
  assumes "\<not> isPaused state" "\<not> isGameOver state"
  shows "\<exists>f. runCallback env k (FollowUpNews state cid n) = [Dispatch (ADD_NEWS f)] \<and>
           chainId f = Some cid \<and> chainSequence f = Some 2 \<and>
           magnitude f = magnitude n * 1.5 \<and> impactedAssets f = impactedAssets n \<and>
           news_id f = news_id (generateMarketNews env k (assets state) (round_number state) True)"
  using assms by (simp add: Let_def)

lemma timersSet_runCallback: "timersSet (runCallback env k cb) = []"
  by (cases cb) (simp_all add: Let_def)

lemma example_frame:
  "updateTimer example_env example_state (Some 0) 0 0 [10000] 16 500 =
     [Dispatch (TICK 0.016),
      SetTimeout (FollowUpNews example_state ''chain-a'' example_news) 10000,
      Dispatch (ADD_NEWS example_news),
      RemoveFromEventSchedule 0,
      SetTimeout (ExpireNews example_news) 15000,
      SetLastTickTime 16,
      RequestAnimationFrame]"
  by (simp add: updateTimer_def checkScheduledNews_def newsEvent_def Let_def
      PRICE_UPDATE_INTERVAL_def example_env_def example_news_def example_state_def)

lemma example_followUp_run:
  "runCallback example_env 1 (FollowUpNews example_state ''chain-a'' example_news) =
     [Dispatch (ADD_NEWS example_followUp)]"
  by (simp add: Let_def example_env_def example_news_def example_followUp_def
      example_state_def)

lemma example_frame_timers:
  "timersSet (updateTimer example_env example_state (Some 0) 0 0 [10000] 16 500) =
     [(FollowUpNews example_state ''chain-a'' example_news, 10000),
      (ExpireNews example_news, 15000)]"
  by (simp add: example_frame)

lemma example_frame_news:
  "newsAdded (updateTimer example_env example_state (Some 0) 0 0 [10000] 16 500) =
     [example_news]"
  by (simp add: example_frame)

lemma updateTimer_chained_event:
  assumes run: "\<not> isGameOver state" "\<not> isPaused state"
    and e: "(index, timing) \<in> set (enumerate 0 eventSchedule)"
    and w: "\<bar>(60 - timeRemaining state) * 1000 - timing\<bar> < 100"
    and c: "shouldBeChainedEvent env index (eventDensity state)"
  shows "\<exists>n. n \<in> set (newsAdded (updateTimer env state (Some lastTick) lastPriceUpdate
             lastNetWorthUpdate eventSchedule timestamp now)) \<and>
           chainId n = Some (uuidv4 env index) \<and>
           (FollowUpNews state (uuidv4 env index) n, \<lfloor>Math_random env index * 10000\<rfloor> + 5000)
             \<in> set (timersSet (updateTimer env state (Some lastTick) lastPriceUpdate
                 lastNetWorthUpdate eventSchedule timestamp now))"
proof -
  from newsEvent_fired [OF w, of env index] c obtain n where
    n: "newsAdded (newsEvent env state index timing) = [n]" and
    t: "timersSet (newsEvent env state index timing) =
          [(FollowUpNews state (uuidv4 env index) n, \<lfloor>Math_random env index * 10000\<rfloor> + 5000),
           (ExpireNews n, 15000)]" and
    i: "chainId n = Some (uuidv4 env index)"
    by auto
  from n have "n \<in> set (newsAdded (newsEvent env state index timing))" by simp
  with e have "\<exists>index timing. (index, timing) \<in> set (enumerate 0 eventSchedule) \<and>
      n \<in> set (newsAdded (newsEvent env state index timing))"
    by blast
  with run have "n \<in> set (newsAdded (updateTimer env state (Some lastTick) lastPriceUpdate
      lastNetWorthUpdate eventSchedule timestamp now))"
    by (simp add: newsAdded_updateTimer checkScheduledNews_news)
  moreover
  from t have "(FollowUpNews state (uuidv4 env index) n, \<lfloor>Math_random env index * 10000\<rfloor> + 5000)
      \<in> set (timersSet (newsEvent env state index timing))"
    by simp
  with e have "\<exists>index' timing'. (index', timing') \<in> set (enumerate 0 eventSchedule) \<and>
      (FollowUpNews state (uuidv4 env index) n, \<lfloor>Math_random env index * 10000\<rfloor> + 5000)
        \<in> set (timersSet (newsEvent env state index' timing'))"
    by blast
  with run
  have "(FollowUpNews state (uuidv4 env index) n, \<lfloor>Math_random env index * 10000\<rfloor> + 5000)
      \<in> set (timersSet (updateTimer env state (Some lastTick) lastPriceUpdate
          lastNetWorthUpdate eventSchedule timestamp now))"
    by (simp add: timersSet_updateTimer checkScheduledNews_timer)
  ultimately show ?thesis using i by blast
qed







text \<open>
  Claim C1. The computed net worth is the cash, plus for each holding whose asset is in the
  asset list its quantity times the asset's current price, plus for each such holding with a
  short position (a positive short quantity) the short quantity times the difference of the
  average short price and the asset's current price. On the snapshot with cash 1000, two
  units at price 50 and one unit short at 40 of an asset now priced 30, it is 1110.
\<close>

theorem calculateNetWorth_formula:
  "calculateNetWorth state =
     cash state +
     sum_list (map (\<lambda>(assetId, holding).
          (case find (\<lambda>a. asset_id a = assetId) (assets state) of
             None \<Rightarrow> 0
           | Some asset \<Rightarrow> quantity holding * price asset)) (holdings state)) +
     sum_list (map (\<lambda>(assetId, holding).
          (case find (\<lambda>a. asset_id a = assetId) (assets state) of
             None \<Rightarrow> 0
           | Some asset \<Rightarrow>
               if shortQuantity holding > 0
               then shortQuantity holding * (averageShortPrice holding - price asset)
               else 0)) (holdings state)) \<and>
   calculateNetWorth example_state = 1110"
proof
  show "calculateNetWorth state =
     cash state +
     sum_list (map (\<lambda>(assetId, holding).
          (case find (\<lambda>a. asset_id a = assetId) (assets state) of
             None \<Rightarrow> 0
           | Some asset \<Rightarrow> quantity holding * price asset)) (holdings state)) +
     sum_list (map (\<lambda>(assetId, holding).
          (case find (\<lambda>a. asset_id a = assetId) (assets state) of
             None \<Rightarrow> 0
           | Some asset \<Rightarrow>
               if shortQuantity holding > 0
               then shortQuantity holding * (averageShortPrice holding - price asset)
               else 0)) (holdings state))"
    unfolding calculateNetWorth_def by (rule fold_netWorth)
  show "calculateNetWorth example_state = 1110"
    by (simp add: calculateNetWorth_def example_state_def)
qed

theorem calculateNetWorth_formula_witness:
  "calculateNetWorth example_state = 1000 + (2 * 50 + 0 * 30) + (0 + 1 * (40 - 30))"
  using calculateNetWorth_formula [of example_state]
  by (simp add: example_state_def)

text \<open>
  Claim C2, as amended. A trade attempted while the game-over flag is set, or against an
  asset id that is not in the asset list, whatever the action and the amount, is rejected
  silently: \<^verbatim>\<open>executeTrade\<close> returns no value (no error kind is reported) and dispatches
  nothing, so the state, with its cash and the quantity and short quantity of every holding,
  is the one before the attempt.
\<close>

theorem executeTrade_rejected_silently:
  "isGameOver state \<or> find (\<lambda>a. asset_id a = assetId) (assets state) = None \<longrightarrow>
     fst (executeTrade state assetId action amount now) = None \<and>
     snd (executeTrade state assetId action amount now) = [] \<and>
     reduceAll gameReducer state (snd (executeTrade state assetId action amount now)) = state \<and>
     cash (reduceAll gameReducer state (snd (executeTrade state assetId action amount now))) =
       cash state \<and>
     holdings (reduceAll gameReducer state (snd (executeTrade state assetId action amount now))) =
       holdings state"
  by (auto simp: executeTrade_rejected reduceAll_def)

theorem executeTrade_rejected_silently_witness:
  "isGameOver gameover_state \<and>
   executeTrade gameover_state ''stock'' Buy 100 0 = (None, []) \<and>
   find (\<lambda>a. asset_id a = ''gold'') (assets example_state) = None \<and>
   executeTrade example_state ''gold'' Sell 100 0 = (None, []) \<and>
   reduceAll (\<lambda>s a. s\<lparr>cash := 0\<rparr>) gameover_state
     (snd (executeTrade gameover_state ''stock'' Cover 100 0)) = gameover_state"
proof -
  have g: "isGameOver gameover_state"
    by (simp add: gameover_state_def)
  have m: "find (\<lambda>a. asset_id a = ''gold'') (assets example_state) = None"
    by (simp add: example_state_def)
  note T1 = executeTrade_rejected_silently [where state = gameover_state and assetId = "''stock''"
      and action = Buy and amount = 100 and now = 0 and gameReducer = "\<lambda>s a. s\<lparr>cash := 0\<rparr>"]
  note T2 = executeTrade_rejected_silently [where state = example_state and assetId = "''gold''"
      and action = Sell and amount = 100 and now = 0 and gameReducer = "\<lambda>s a. s\<lparr>cash := 0\<rparr>"]
  note T3 = executeTrade_rejected_silently [where state = gameover_state and assetId = "''stock''"
      and action = Cover and amount = 100 and now = 0 and gameReducer = "\<lambda>s a. s\<lparr>cash := 0\<rparr>"]
  from T1 g have a: "executeTrade gameover_state ''stock'' Buy 100 0 = (None, [])"
    by (simp add: prod_eq_iff)
  from T2 m have b: "executeTrade example_state ''gold'' Sell 100 0 = (None, [])"
    by (simp add: prod_eq_iff)
  from T3 g have c: "reduceAll (\<lambda>s a. s\<lparr>cash := 0\<rparr>) gameover_state
     (snd (executeTrade gameover_state ''stock'' Cover 100 0)) = gameover_state"
    by blast
  from g a m b c show ?thesis by simp
qed

text \<open>
  The claim as stated fails on its first half: with the game over, a buy of the listed
  asset \<open>stock\<close> returns nothing, not the error kind \<open>InvalidState\<close>. A trade that is
  accepted returns nothing either.
\<close>

theorem executeTrade_no_InvalidState_counterexample:
  "isGameOver gameover_state \<and>
   fst (executeTrade gameover_state ''stock'' Buy 100 0) = None \<and>
   fst (executeTrade gameover_state ''stock'' Buy 100 0) \<noteq> Some InvalidState \<and>
   fst (executeTrade example_state ''stock'' Buy 100 0) = None"
  by (simp add: executeTrade_def gameover_state_def example_state_def)

text \<open>
  Claim C5. A frame that handles a scheduled event as chained adds the news item with a
  fresh chain id and sets a timer for the follow-up. For every follow-up timer a frame sets,
  the item it was chained to is among the news the frame adds, and when the timer fires the
  follow-up item it adds has the chain id of that item, chain sequence 2, a magnitude of 1.5
  times that item's magnitude and that item's impacted assets, whatever the news generator
  returns for the follow-up.
\<close>

theorem followUp_carries_chain:
  "((FollowUpNews s cid n, delay) \<in> set (timersSet (updateTimer env state lastTickTime
        lastPriceUpdate lastNetWorthUpdate eventSchedule timestamp now)) \<longrightarrow>
      n \<in> set (newsAdded (updateTimer env state lastTickTime lastPriceUpdate
             lastNetWorthUpdate eventSchedule timestamp now)) \<and>
      chainId n = Some cid \<and> chainSequence n = Some 1 \<and>
      (\<exists>f. runCallback env' k (FollowUpNews s cid n) = [Dispatch (ADD_NEWS f)] \<and>
         chainId f = chainId n \<and> chainSequence f = Some 2 \<and>
         magnitude f = magnitude n * 1.5 \<and> impactedAssets f = impactedAssets n)) \<and>
   (\<not> isGameOver state \<and> \<not> isPaused state \<and>
    (index, timing) \<in> set (enumerate 0 eventSchedule) \<and>
    \<bar>(60 - timeRemaining state) * 1000 - timing\<bar> < 100 \<and>
    shouldBeChainedEvent env index (eventDensity state) \<longrightarrow>
      (\<exists>m. m \<in> set (newsAdded (updateTimer env state (Some lastTick) lastPriceUpdate
               lastNetWorthUpdate eventSchedule timestamp now)) \<and>
         chainId m = Some (uuidv4 env index) \<and>
         (FollowUpNews state (uuidv4 env index) m, \<lfloor>Math_random env index * 10000\<rfloor> + 5000)
           \<in> set (timersSet (updateTimer env state (Some lastTick) lastPriceUpdate
               lastNetWorthUpdate eventSchedule timestamp now))))"
proof (intro conjI impI)
  assume a: "(FollowUpNews s cid n, delay) \<in> set (timersSet (updateTimer env state lastTickTime
        lastPriceUpdate lastNetWorthUpdate eventSchedule timestamp now))"
  from updateTimer_timer [OF a] have
    run: "\<not> isGameOver state" "\<not> isPaused state" and
    s: "s = state" and
    n: "n \<in> set (newsAdded (updateTimer env state lastTickTime lastPriceUpdate
             lastNetWorthUpdate eventSchedule timestamp now))" and
    c: "chainId n = Some cid" "chainSequence n = Some 1"
    by auto
  from n show "n \<in> set (newsAdded (updateTimer env state lastTickTime lastPriceUpdate
             lastNetWorthUpdate eventSchedule timestamp now))" .
  from c show "chainId n = Some cid" "chainSequence n = Some 1" by simp_all
  from runCallback_followUp [OF run(2) run(1), of env' k cid n] c s
  show "\<exists>f. runCallback env' k (FollowUpNews s cid n) = [Dispatch (ADD_NEWS f)] \<and>
         chainId f = chainId n \<and> chainSequence f = Some 2 \<and>
         magnitude f = magnitude n * 1.5 \<and> impactedAssets f = impactedAssets n"
    by auto
next
  assume b: "\<not> isGameOver state \<and> \<not> isPaused state \<and>
    (index, timing) \<in> set (enumerate 0 eventSchedule) \<and>
    \<bar>(60 - timeRemaining state) * 1000 - timing\<bar> < 100 \<and>
    shouldBeChainedEvent env index (eventDensity state)"
  show "\<exists>m. m \<in> set (newsAdded (updateTimer env state (Some lastTick) lastPriceUpdate
               lastNetWorthUpdate eventSchedule timestamp now)) \<and>
         chainId m = Some (uuidv4 env index) \<and>
         (FollowUpNews state (uuidv4 env index) m, \<lfloor>Math_random env index * 10000\<rfloor> + 5000)
           \<in> set (timersSet (updateTimer env state (Some lastTick) lastPriceUpdate
               lastNetWorthUpdate eventSchedule timestamp now))"
    by (rule updateTimer_chained_event) (use b in blast)+
qed

theorem followUp_carries_chain_witness:
  "(FollowUpNews example_state ''chain-a'' example_news, 10000)
     \<in> set (timersSet (updateTimer example_env example_state (Some 0) 0 0 [10000] 16 500)) \<and>
   example_news \<in> set (newsAdded (updateTimer example_env example_state (Some 0) 0 0 [10000] 16 500)) \<and>
   runCallback example_env 1 (FollowUpNews example_state ''chain-a'' example_news) =
     [Dispatch (ADD_NEWS example_followUp)] \<and>
   chainId example_followUp = chainId example_news \<and>
   chainSequence example_followUp = Some 2 \<and>
   magnitude example_followUp = magnitude example_news * 1.5 \<and>
   impactedAssets example_followUp = impactedAssets example_news"
proof -
  have t: "(FollowUpNews example_state ''chain-a'' example_news, 10000)
     \<in> set (timersSet (updateTimer example_env example_state (Some 0) 0 0 [10000] 16 500))"
    by (simp add: example_frame_timers)
  from t followUp_carries_chain [where s = example_state and cid = "''chain-a''"
      and n = example_news and delay = 10000 and env = example_env and state = example_state
      and lastTickTime = "Some 0" and lastPriceUpdate = 0 and lastNetWorthUpdate = 0
      and eventSchedule = "[10000]" and timestamp = 16 and now = 500 and env' = example_env
      and k = 1]
  obtain f where
    n: "example_news \<in> set (newsAdded (updateTimer example_env example_state (Some 0) 0 0 [10000] 16 500))" and
    r: "runCallback example_env 1 (FollowUpNews example_state ''chain-a'' example_news) =
         [Dispatch (ADD_NEWS f)]" and
    props: "chainId f = chainId example_news" "chainSequence f = Some 2"
      "magnitude f = magnitude example_news * 1.5"
      "impactedAssets f = impactedAssets example_news"
    by blast
  have "[Dispatch (ADD_NEWS f)] = [Dispatch (ADD_NEWS example_followUp)]"
    unfolding r [symmetric] by (rule example_followUp_run)
  then have fe: "f = example_followUp" by simp
  from t n example_followUp_run props [unfolded fe] show ?thesis by blast
qed

text \<open>
  Claim C6 does not hold of follow-up items. The frame of the example handles one chained
  event. It adds \<open>news-a\<close> and sets two timers, the follow-up after 10000 ms and the expiry of
  \<open>news-a\<close> after 15000 ms. The follow-up timer, when it fires, adds the item \<open>news-b\<close> and
  sets no timer: no removal of \<open>news-b\<close> is scheduled, and the one expiry that is pending
  removes \<open>news-a\<close>.
\<close>

theorem followUp_news_without_expiry:
  "newsAdded (updateTimer example_env example_state (Some 0) 0 0 [10000] 16 500) =
     [example_news] \<and>
   timersSet (updateTimer example_env example_state (Some 0) 0 0 [10000] 16 500) =
     [(FollowUpNews example_state ''chain-a'' example_news, 10000),
      (ExpireNews example_news, 15000)] \<and>
   runCallback example_env 1 (FollowUpNews example_state ''chain-a'' example_news) =
     [Dispatch (ADD_NEWS example_followUp)] \<and>
   timersSet (runCallback example_env 1
     (FollowUpNews example_state ''chain-a'' example_news)) = [] \<and>
   runCallback example_env 2 (ExpireNews example_news) = [Dispatch (EXPIRE_NEWS ''news-a'')] \<and>
   news_id example_followUp = ''news-b''"
proof -
  have a: "timersSet (runCallback example_env 1
      (FollowUpNews example_state ''chain-a'' example_news)) = []"
    by (rule timersSet_runCallback)
  have b: "runCallback example_env 2 (ExpireNews example_news) =
      [Dispatch (EXPIRE_NEWS ''news-a'')]"
    by (simp add: example_news_def)
  have c: "news_id example_followUp = ''news-b''"
    by (simp add: example_followUp_def)
  from example_frame_news example_frame_timers example_followUp_run a b c
  show ?thesis by blast
qed

declare runCallback.simps [simp del]




end
